theory Spec2Isabelle
  imports Complex_Main
begin

section \<open>Python values, exceptions and control flow\<close>

text \<open>
  The development embeds \<^verbatim>\<open>src/yucca/preprocessing/YuccaPreprocessor.py\<close>.
  Every \<^verbatim>\<open>raise\<close>, failed \<^verbatim>\<open>assert\<close>, missing dictionary key and out-of-range
  index of the source is a value \<open>Inl e\<close>; a normal return is \<open>Inr v\<close>.
  Voxel values and spacings are floating point numbers in the source; they are
  modelled by exact rationals.
\<close>

datatype error =
    AssertionError string
  | IndexError
  | KeyError string
  | ValueError
  | TypeError
  | OverflowError
  | AttributeError
  | UnboundLocalError
  | FileNotFoundError string
  | ImageFileError string

definition ebind :: "'e + 'a \<Rightarrow> ('a \<Rightarrow> 'e + 'b) \<Rightarrow> 'e + 'b" where
  "ebind m f = (case m of Inl e \<Rightarrow> Inl e | Inr x \<Rightarrow> f x)"

definition py_assert :: "bool \<Rightarrow> string \<Rightarrow> error + unit" where
  "py_assert b msg = (if b then Inr () else Inl (AssertionError msg))"

text \<open>\<^verbatim>\<open>d[key]\<close> on a dictionary entry that may be absent.\<close>

definition getkey :: "string \<Rightarrow> 'a option \<Rightarrow> error + 'a" where
  "getkey k v = (case v of None \<Rightarrow> Inl (KeyError k) | Some x \<Rightarrow> Inr x)"

text \<open>A \<^verbatim>\<open>for\<close> loop over a list whose body may raise: the first exception ends the loop.\<close>

fun for_each :: "'i list \<Rightarrow> ('i \<Rightarrow> 's \<Rightarrow> error + 's) \<Rightarrow> 's \<Rightarrow> error + 's" where
  "for_each [] body s = Inr s"
| "for_each (i # is) body s = ebind (body i s) (for_each is body)"

section \<open>numpy arrays\<close>

text \<open>
  An array is its shape together with the value at every multi-index. Only the
  indices inside the shape are meaningful.
\<close>

record ndarray =
  shape :: "nat list"
  vals :: "nat list \<Rightarrow> rat"

definition ndim :: "ndarray \<Rightarrow> nat" where
  "ndim a = length (shape a)"

definition in_bounds :: "nat list \<Rightarrow> nat list \<Rightarrow> bool" where
  "in_bounds s idx = list_all2 (\<lambda>i n. i < n) idx s"

definition np_zeros :: "nat list \<Rightarrow> ndarray" where
  "np_zeros s = \<lparr>shape = s, vals = (\<lambda>idx. 0)\<rparr>"

text \<open>
  \<^verbatim>\<open>np.all(image.shape == recorded)\<close>: a tuple compared with a one-dimensional array.
  Equal lengths compare elementwise, a length of one broadcasts; any other pair of
  lengths does not broadcast and the comparison is not true (numpy answers False or
  raises, depending on its version; both end the call).
\<close>

definition np_all_eq :: "nat list \<Rightarrow> nat list \<Rightarrow> bool" where
  "np_all_eq s r =
     (if length s = length r then s = r
      else if length r = 1 then list_all (\<lambda>x. x = hd r) s
      else if length s = 1 then list_all (\<lambda>y. hd s = y) r
      else False)"

text \<open>
  The attributes \<^verbatim>\<open>transpose_forward\<close>, \<^verbatim>\<open>transpose_backward\<close> and
  \<^verbatim>\<open>target_spacing\<close> of the preprocessor are Python lists after \<^verbatim>\<open>__init__\<close> and
  numpy arrays after \<^verbatim>\<open>initialize_properties\<close>; the two behave differently.
\<close>

datatype 'a pyseq = PyList "'a list" | NpArray "'a list"

definition elems :: "'a pyseq \<Rightarrow> 'a list" where
  "elems sq = (case sq of PyList xs \<Rightarrow> xs | NpArray xs \<Rightarrow> xs)"

text \<open>
  \<^verbatim>\<open>xs[idxs]\<close> on an array \<open>xs\<close> (a copy is returned). Indexed with the Python list
  \<^verbatim>\<open>[]\<close> the result is the empty array. An index array that
  \<^verbatim>\<open>np.array(plans['transpose_forward'])\<close> built from an empty list has a float type,
  which numpy refuses as an index.
\<close>

definition np_take :: "'a list \<Rightarrow> nat pyseq \<Rightarrow> error + 'a list" where
  "np_take xs idxs =
     (case idxs of
        NpArray [] \<Rightarrow> Inl IndexError
      | _ \<Rightarrow>
          if list_all (\<lambda>i. i < length xs) (elems idxs)
          then Inr (map (\<lambda>i. xs ! i) (elems idxs))
          else Inl IndexError)"

text \<open>
  \<^verbatim>\<open>xs[idxs]\<close> and \<^verbatim>\<open>xs.size\<close> where \<open>xs\<close> is such an attribute: a Python list
  cannot be indexed with an array (TypeError) and has no \<^verbatim>\<open>size\<close> (AttributeError).
\<close>

definition take_from :: "'a pyseq \<Rightarrow> nat pyseq \<Rightarrow> error + 'a list" where
  "take_from xs idxs =
     (case xs of PyList l \<Rightarrow> Inl TypeError | NpArray a \<Rightarrow> np_take a idxs)"

definition size_of :: "'a pyseq \<Rightarrow> error + nat" where
  "size_of xs = (case xs of PyList l \<Rightarrow> Inl AttributeError | NpArray a \<Rightarrow> Inr (length a))"

text \<open>\<^verbatim>\<open>images[b, c]\<close>: the sub-array at two leading integer indices.\<close>

definition getitem2 :: "ndarray \<Rightarrow> nat \<Rightarrow> nat \<Rightarrow> error + ndarray" where
  "getitem2 a b c =
     (case shape a of
        n0 # n1 # rest \<Rightarrow>
          if b < n0 \<and> c < n1
          then Inr \<lparr>shape = rest, vals = (\<lambda>idx. vals a (b # c # idx))\<rparr>
          else Inl IndexError
      | _ \<Rightarrow> Inl IndexError)"

text \<open>
  Python's \<^verbatim>\<open>start:stop\<close> on an axis of length \<open>n\<close>: a negative bound counts from
  the end, both bounds are clamped to the axis, and a stop at or below the start
  selects nothing. The result is the first selected position and the count.
\<close>

definition slice_bound :: "nat \<Rightarrow> int \<Rightarrow> nat" where
  "slice_bound n i = (if i < 0 then nat (max 0 (int n + i)) else min n (nat i))"

definition py_slice :: "nat \<Rightarrow> int \<times> int \<Rightarrow> nat \<times> nat" where
  "py_slice n se = (let lo = slice_bound n (fst se); hi = slice_bound n (snd se)
                    in (lo, hi - lo))"

text \<open>
  The offsets and extents selected by a tuple of slices on the leading axes of a
  shape; the remaining axes are taken whole.
\<close>

definition slice_offsets :: "nat list \<Rightarrow> (int \<times> int) list \<Rightarrow> nat list" where
  "slice_offsets s sl =
     map (\<lambda>(n, se). fst (py_slice n se)) (zip s sl) @ replicate (length s - length sl) 0"

definition slice_extents :: "nat list \<Rightarrow> (int \<times> int) list \<Rightarrow> nat list" where
  "slice_extents s sl =
     map (\<lambda>(n, se). snd (py_slice n se)) (zip s sl) @ drop (length sl) s"

text \<open>\<^verbatim>\<open>a[s0:e0, s1:e1, ...]\<close>; more slices than axes is an IndexError.\<close>

definition getslice :: "ndarray \<Rightarrow> (int \<times> int) list \<Rightarrow> error + ndarray" where
  "getslice a sl =
     (if length (shape a) < length sl then Inl IndexError
      else Inr \<lparr>shape = slice_extents (shape a) sl,
                vals = (\<lambda>idx. vals a (map2 (+) (slice_offsets (shape a) sl) idx))\<rparr>)"

text \<open>
  numpy broadcasting of a source shape to a target shape: the shapes are aligned at
  their last axes and a source axis either agrees with the target or has length one.
\<close>

definition broadcastable :: "nat list \<Rightarrow> nat list \<Rightarrow> bool" where
  "broadcastable src tgt =
     (length src \<le> length tgt \<and>
      list_all2 (\<lambda>m n. m = n \<or> m = 1) src (drop (length tgt - length src) tgt))"

definition bcast_index :: "nat list \<Rightarrow> nat list \<Rightarrow> nat list \<Rightarrow> nat list" where
  "bcast_index src tgt idx =
     map2 (\<lambda>m i. if m = 1 then 0 else i) src (drop (length tgt - length src) idx)"

definition in_region :: "nat list \<Rightarrow> nat list \<Rightarrow> nat list \<Rightarrow> bool" where
  "in_region offs exts idx =
     (length idx = length offs \<and>
      list_all (\<lambda>(i, (off, ext)). off \<le> i \<and> i < off + ext) (zip idx (zip offs exts)))"

text \<open>
  \<^verbatim>\<open>canvas[b, c][slices] = image\<close>: the values of the image, broadcast to the selected
  region, overwrite that region of the sub-array of \<open>canvas\<close> at \<open>(b, c)\<close>. Everything
  else in \<open>canvas\<close> keeps its value.
\<close>

definition setitem_bc_slices ::
  "ndarray \<Rightarrow> nat \<Rightarrow> nat \<Rightarrow> (int \<times> int) list \<Rightarrow> ndarray \<Rightarrow> error + ndarray" where
  "setitem_bc_slices canvas b c sl img =
     (case shape canvas of
        n0 # n1 # rest \<Rightarrow>
          if \<not> (b < n0 \<and> c < n1) then Inl IndexError
          else if length rest < length sl then Inl IndexError
          else if \<not> broadcastable (shape img) (slice_extents rest sl) then Inl ValueError
          else Inr (canvas\<lparr>vals := (\<lambda>idx.
                 if take 2 idx = [b, c] \<and>
                    in_region (slice_offsets rest sl) (slice_extents rest sl) (drop 2 idx)
                 then vals img (bcast_index (shape img) (slice_extents rest sl)
                        (map2 (-) (drop 2 idx) (slice_offsets rest sl)))
                 else vals canvas idx)\<rparr>)
      | _ \<Rightarrow> Inl IndexError)"

text \<open>
  \<^verbatim>\<open>a.transpose(axes)\<close>: \<open>axes\<close> must be a permutation of the axes of \<open>a\<close>; axis \<open>i\<close>
  of the result is axis \<open>axes[i]\<close> of \<open>a\<close>.
\<close>

fun index_of :: "nat list \<Rightarrow> nat \<Rightarrow> nat" where
  "index_of [] j = 0"
| "index_of (x # xs) j = (if x = j then 0 else Suc (index_of xs j))"

definition np_transpose :: "ndarray \<Rightarrow> nat list \<Rightarrow> error + ndarray" where
  "np_transpose a axes =
     (if length axes = length (shape a) \<and> distinct axes \<and>
         list_all (\<lambda>i. i < length (shape a)) axes
      then Inr \<lparr>shape = map (\<lambda>i. shape a ! i) axes,
                vals = (\<lambda>idx. vals a (map (\<lambda>j. idx ! index_of axes j) [0..<length axes]))\<rparr>
      else Inl ValueError)"

section \<open>The plan, the preprocessor object and the per-case record\<close>

text \<open>
  The plan is the JSON document behind \<^verbatim>\<open>self.plans\<close>. The source reads every key
  with \<^verbatim>\<open>self.plans[key]\<close> except \<^verbatim>\<open>target_coordinate_system\<close>, which inference
  reads with \<^verbatim>\<open>.get\<close>: that key may be absent. \<open>classes\<close>, \<open>data_dimensions\<close> and
  \<open>intensities\<close> are the entries of \<^verbatim>\<open>plans['dataset_properties']\<close>.
\<close>

type_synonym intensity = "(string \<times> rat) list"

record plans =
  plans_name :: string
  crop_to_nonzero :: bool
  normalization_scheme :: "string list"
  transpose_forward :: "nat list"
  transpose_backward :: "nat list"
  target_spacing :: "rat list"
  target_coordinate_system :: "string option"
  classes :: "rat list"
  data_dimensions :: nat
  intensities :: "intensity list"

text \<open>
  The attributes of a \<^verbatim>\<open>YuccaPreprocessor\<close>. \<^verbatim>\<open>__init__\<close> sets the three lists to
  \<^verbatim>\<open>[]\<close> and leaves \<^verbatim>\<open>self.intensities\<close> unset; \<^verbatim>\<open>initialize_properties\<close> fills them
  from the plan. \<open>target_dir\<close>, \<open>input_dir\<close> and \<open>imagepaths\<close> are what
  \<^verbatim>\<open>initialize_paths\<close> has stored.
\<close>

record preprocessor =
  plans :: plans
  task :: string
  disable_unittests :: bool
  self_transpose_forward :: "nat pyseq"
  self_transpose_backward :: "nat pyseq"
  self_target_spacing :: "rat pyseq"
  self_intensities :: "intensity list option"
  target_dir :: string
  input_dir :: string
  imagepaths :: "string list"

definition init :: "plans \<Rightarrow> string \<Rightarrow> bool \<Rightarrow> preprocessor" where
  "init pl tk dis =
     \<lparr>plans = pl, task = tk, disable_unittests = dis,
      self_transpose_forward = PyList [], self_transpose_backward = PyList [],
      self_target_spacing = PyList [],
      self_intensities = None, target_dir = [], input_dir = [], imagepaths = []\<rparr>"

definition initialize_properties :: "preprocessor \<Rightarrow> preprocessor" where
  "initialize_properties self =
     self\<lparr>self_intensities := Some (intensities (plans self)),
          self_transpose_forward := NpArray (transpose_forward (plans self)),
          self_transpose_backward := NpArray (transpose_backward (plans self)),
          self_target_spacing := NpArray (target_spacing (plans self))\<rparr>"

text \<open>
  The dictionary \<^verbatim>\<open>image_properties\<close> that \<^verbatim>\<open>preprocess_case_for_inference\<close> fills
  and \<^verbatim>\<open>reverse_preprocessing\<close> reads. A key that has not been stored is \<open>None\<close>.
\<close>

type_synonym matrix = "rat list list"

record image_properties =
  original_spacing :: "rat list option"
  original_shape :: "nat list option"
  qform :: "matrix option"
  sform :: "matrix option"
  reoriented :: "bool option"
  original_orientation :: "string option"
  new_orientation :: "string option"
  affine :: "matrix option"
  uncropped_shape :: "nat list option"
  nonzero_box :: "int list option"
  cropped_shape :: "nat list option"
  resampled_transposed_shape :: "nat list option"
  padded_shape :: "nat list option"
  padding :: "int list option"

definition empty_properties :: image_properties where
  "empty_properties =
     \<lparr>original_spacing = None, original_shape = None, qform = None, sform = None,
      reoriented = None, original_orientation = None, new_orientation = None,
      affine = None, uncropped_shape = None, nonzero_box = None, cropped_shape = None,
      resampled_transposed_shape = None, padded_shape = None, padding = None\<rparr>"

section \<open>Volumes and the library functions the preprocessor calls\<close>

text \<open>
  A loaded NIfTI volume: what \<^verbatim>\<open>nib_to_np\<close>, \<^verbatim>\<open>get_nib_spacing\<close>,
  \<^verbatim>\<open>get_nib_orientation\<close>, \<^verbatim>\<open>get_qform(coded=True)[1]\<close>, \<^verbatim>\<open>get_sform(coded=True)[1]\<close>,
  \<^verbatim>\<open>get_qform()\<close>, \<^verbatim>\<open>get_sform()\<close> and \<^verbatim>\<open>.affine\<close> return for it.
\<close>

record nib_image =
  dataobj :: ndarray
  zooms :: "rat list"
  axcodes :: string
  qform_code :: nat
  sform_code :: nat
  img_qform :: matrix
  img_sform :: matrix
  img_affine :: matrix

definition nib_to_np :: "nib_image \<Rightarrow> ndarray" where
  "nib_to_np im = dataobj im"

definition nib_shape :: "nib_image \<Rightarrow> nat list" where
  "nib_shape im = shape (dataobj im)"

definition get_nib_spacing :: "nib_image \<Rightarrow> rat list" where
  "get_nib_spacing im = zooms im"

definition get_nib_orientation :: "nib_image \<Rightarrow> string" where
  "get_nib_orientation im = axcodes im"

text \<open>
  The functions of skimage, yuccalib, cc3d and \<^verbatim>\<open>yucca.preprocessing.normalization\<close>
  that the preprocessor calls are parameters of the model. They are functions of
  their arguments (they modify none of them). \<open>resize\<close> takes the interpolation
  order first; it, the normalizer and \<open>pad_to_size\<close> may raise.
\<close>

record externals =
  resize :: "nat \<Rightarrow> ndarray \<Rightarrow> int list \<Rightarrow> error + ndarray"
  normalizer :: "ndarray \<Rightarrow> string \<Rightarrow> intensity \<Rightarrow> error + ndarray"
  reorient_nib_image :: "nib_image \<Rightarrow> string \<Rightarrow> string \<Rightarrow> nib_image"
  get_bbox_for_foreground :: "ndarray \<Rightarrow> int list"
  crop_to_box :: "ndarray \<Rightarrow> int list \<Rightarrow> ndarray"
  pad_to_size :: "ndarray \<Rightarrow> nat list \<Rightarrow> error + ndarray \<times> int list"
  connected_components :: "ndarray \<Rightarrow> ndarray \<times> nat"

section \<open>The store\<close>

text \<open>
  \<^verbatim>\<open>reverse_preprocessing\<close> receives references to an array and to a dictionary and
  writes into an array it allocates. The store is the list of allocated objects, a
  reference is a position in it, and allocation appends.
\<close>

datatype obj = ArrObj ndarray | DictObj image_properties

type_synonym heap = "obj list"

definition get_array :: "heap \<Rightarrow> nat \<Rightarrow> error + ndarray" where
  "get_array h p =
     (if p < length h then (case h ! p of ArrObj a \<Rightarrow> Inr a | DictObj d \<Rightarrow> Inl TypeError)
      else Inl TypeError)"

definition get_dict :: "heap \<Rightarrow> nat \<Rightarrow> error + image_properties" where
  "get_dict h p =
     (if p < length h then (case h ! p of DictObj d \<Rightarrow> Inr d | ArrObj a \<Rightarrow> Inl TypeError)
      else Inl TypeError)"

definition alloc :: "heap \<Rightarrow> obj \<Rightarrow> nat \<times> heap" where
  "alloc h ob = (length h, h @ [ob])"

section \<open>reverse\_preprocessing\<close>

text \<open>
  Lines 379--382: the padding is stripped with three slices when \<^verbatim>\<open>len(pad) > 5\<close>,
  with two when \<^verbatim>\<open>len(pad) < 5\<close>, and not at all when the length is five.
  \<^verbatim>\<open>pad[k]\<close> and \<^verbatim>\<open>shape[k]\<close> raise IndexError out of range.
\<close>

definition strip_padding :: "ndarray \<Rightarrow> int list \<Rightarrow> error + ndarray" where
  "strip_padding img pad =
     (let s = shape img in
      if length pad > 5 then
        (if length s < 3 then Inl IndexError
         else getslice img [(pad ! 0, int (s ! 0) - pad ! 1),
                            (pad ! 2, int (s ! 1) - pad ! 3),
                            (pad ! 4, int (s ! 2) - pad ! 5)])
      else if length pad < 5 then
        (if length pad < 4 \<or> length s < 2 then Inl IndexError
         else getslice img [(pad ! 0, int (s ! 0) - pad ! 1),
                            (pad ! 2, int (s ! 1) - pad ! 3)])
      else Inr img)"

text \<open>
  Lines 395--398: the slices of the bounding box. With a box of length five neither
  branch assigns \<^verbatim>\<open>slices\<close> and its use raises UnboundLocalError.
\<close>

definition bbox_slices :: "int list \<Rightarrow> error + (int \<times> int) list" where
  "bbox_slices bbox =
     (if length bbox > 5 then Inr [(bbox ! 0, bbox ! 1), (bbox ! 2, bbox ! 3), (bbox ! 4, bbox ! 5)]
      else if length bbox < 5 then
        (if length bbox < 4 then Inl IndexError
         else Inr [(bbox ! 0, bbox ! 1), (bbox ! 2, bbox ! 3)])
      else Inl UnboundLocalError)"

text \<open>
  Lines 373--391, for one sub-array \<^verbatim>\<open>images[b, c]\<close>: the three shape assertions with
  the stripping of the padding, the resize to the cropped shape in transposed order
  and the backward transposition between them.
\<close>

definition reverse_item ::
  "preprocessor \<Rightarrow> externals \<Rightarrow> image_properties \<Rightarrow> nat list \<Rightarrow> int list \<Rightarrow> ndarray
     \<Rightarrow> error + ndarray" where
  "reverse_item self ext props shape_after_crop_transposed pad img0 =
     ebind (getkey ''padded_shape'' (padded_shape props)) (\<lambda>ps.
     ebind (py_assert (np_all_eq (shape img0) ps) ''Reversing padding'') (\<lambda>_.
     ebind (strip_padding img0 pad) (\<lambda>img1.
     ebind (getkey ''resampled_transposed_shape'' (resampled_transposed_shape props)) (\<lambda>rts.
     ebind (py_assert (np_all_eq (shape img1) rts)
              ''Reversing resampling and tranposition'') (\<lambda>_.
     ebind (resize ext 3 img1 (map int shape_after_crop_transposed)) (\<lambda>img2.
     ebind (np_transpose img2 (elems (self_transpose_backward self))) (\<lambda>img3.
     ebind (getkey ''cropped_shape'' (cropped_shape props)) (\<lambda>cs.
     ebind (py_assert (np_all_eq (shape img3) cs) ''Reversing cropping'') (\<lambda>_.
     Inr img3)))))))))"

text \<open>
  The body of the inner loop (lines 373--399). The array and the dictionary are read
  from the store; the only write is the assignment into the canvas, and it stands
  inside \<^verbatim>\<open>if self.plans['crop_to_nonzero']\<close>.
\<close>

definition reverse_body ::
  "preprocessor \<Rightarrow> externals \<Rightarrow> nat \<Rightarrow> nat \<Rightarrow> nat \<Rightarrow> nat list \<Rightarrow> int list
     \<Rightarrow> nat \<Rightarrow> nat \<Rightarrow> heap \<Rightarrow> error + heap" where
  "reverse_body self ext images image_properties canvas shape_after_crop_transposed pad b c h =
     ebind (get_array h images) (\<lambda>imgs.
     ebind (get_dict h image_properties) (\<lambda>props.
     ebind (getitem2 imgs b c) (\<lambda>img0.
     ebind (reverse_item self ext props shape_after_crop_transposed pad img0) (\<lambda>img3.
     if crop_to_nonzero (plans self) then
       ebind (getkey ''nonzero_box'' (nonzero_box props)) (\<lambda>bbox.
       ebind (bbox_slices bbox) (\<lambda>slices.
       ebind (get_array h canvas) (\<lambda>cv.
       ebind (setitem_bc_slices cv b c slices img3) (\<lambda>cv'.
       Inr (h[canvas := ArrObj cv'])))))
     else Inr h))))"

text \<open>
  \<^verbatim>\<open>range(images.shape[k])\<close>; \<^verbatim>\<open>shape[k]\<close> on a shorter shape is an IndexError.
\<close>

definition shape_range :: "heap \<Rightarrow> nat \<Rightarrow> nat \<Rightarrow> error + nat list" where
  "shape_range h images k =
     ebind (get_array h images) (\<lambda>imgs.
     if k < length (shape imgs) then Inr [0..<shape imgs ! k] else Inl IndexError)"

text \<open>
  The two loops (lines 370--399) over \<^verbatim>\<open>range(images.shape[0])\<close> and
  \<^verbatim>\<open>range(images.shape[1])\<close>.
\<close>

definition reverse_loops ::
  "preprocessor \<Rightarrow> externals \<Rightarrow> nat \<Rightarrow> nat \<Rightarrow> nat \<Rightarrow> nat list \<Rightarrow> int list \<Rightarrow> heap
     \<Rightarrow> error + heap" where
  "reverse_loops self ext images image_properties canvas shape_after_crop_transposed pad h1 =
     ebind (shape_range h1 images 0) (\<lambda>bs.
     for_each bs (\<lambda>b h.
       ebind (shape_range h images 1) (\<lambda>cs.
       for_each cs (reverse_body self ext images image_properties canvas
                      shape_after_crop_transposed pad b) h)) h1)"

text \<open>
  The method (lines 363--400). It takes the store and the references to \<^verbatim>\<open>images\<close>
  and \<^verbatim>\<open>image_properties\<close>, and returns the reference to the canvas with the new
  store.
\<close>

definition reverse_preprocessing ::
  "preprocessor \<Rightarrow> externals \<Rightarrow> heap \<Rightarrow> nat \<Rightarrow> nat \<Rightarrow> error + nat \<times> heap" where
  "reverse_preprocessing self ext h0 images image_properties =
     (let nclasses = length (classes (plans self)) in
      ebind (get_dict h0 image_properties) (\<lambda>props.
      ebind (getkey ''original_shape'' (original_shape props)) (\<lambda>orig_shape.
      ebind (getkey ''uncropped_shape'' (uncropped_shape props)) (\<lambda>us.
      (case alloc h0 (ArrObj (np_zeros (1 # nclasses # us))) of (canvas, h1) \<Rightarrow>
      ebind (getkey ''cropped_shape'' (cropped_shape props)) (\<lambda>shape_after_crop.
      ebind (np_take shape_after_crop (self_transpose_forward self))
        (\<lambda>shape_after_crop_transposed.
      ebind (getkey ''padding'' (padding props)) (\<lambda>pad.
      ebind (reverse_loops self ext images image_properties canvas
               shape_after_crop_transposed pad h1) (\<lambda>h2.
      Inr (canvas, h2))))))))))"

section \<open>Resampling and normalization\<close>

text \<open>
  \<^verbatim>\<open>np.round\<close> rounds a half to the even neighbour. A division by a zero spacing gives
  an infinity or a NaN in the source, and \<^verbatim>\<open>astype(int)\<close> turns either into the
  smallest 64-bit integer. Apart from that the floating point quotient and product
  are taken exactly.
\<close>

definition np_round :: "rat \<Rightarrow> int" where
  "np_round x =
     (let f = \<lfloor>x\<rfloor>; d = x - of_int f in
      if d < 1 / 2 then f else if 1 / 2 < d then f + 1
      else if even f then f else f + 1)"

definition nonfinite_as_int :: int where
  "nonfinite_as_int = - (2 ^ 63)"

text \<open>
  Line 259:
  \<^verbatim>\<open>np.round((original_spacing_t / target_spacing_t).astype(float) * shape_t).astype(int)\<close>.
\<close>

definition target_shape :: "rat list \<Rightarrow> rat list \<Rightarrow> nat list \<Rightarrow> int list" where
  "target_shape original_spacing_t target_spacing_t shape_t =
     map (\<lambda>(orig, (tgt, n)).
            if tgt = 0 then nonfinite_as_int else np_round ((orig / tgt) * of_nat n))
         (zip original_spacing_t (zip target_spacing_t shape_t))"

text \<open>
  Lines 262--266 and 269--272: \<^verbatim>\<open>resize\<close> inside \<^verbatim>\<open>try ... except OverflowError\<close>. The
  handler prints and the array keeps its value; any other exception propagates.
\<close>

definition try_resize ::
  "externals \<Rightarrow> nat \<Rightarrow> string \<Rightarrow> ndarray \<Rightarrow> int list \<Rightarrow> string list
     \<Rightarrow> error + ndarray \<times> string list" where
  "try_resize ext ord msg a tshape out =
     (case resize ext ord a tshape of
        Inr r \<Rightarrow> Inr (r, out)
      | Inl OverflowError \<Rightarrow> Inr (a, out @ [msg])
      | Inl e \<Rightarrow> Inl e)"

text \<open>
  Lines 243--250, for image \<open>i\<close>: normalize, check the number of axes against the
  permutation, transpose. The message of the assertion evaluates
  \<^verbatim>\<open>len(images[i]).shape\<close>, so a failing assertion raises AttributeError.
\<close>

definition normalize_and_transpose ::
  "externals \<Rightarrow> string list \<Rightarrow> intensity list \<Rightarrow> nat list \<Rightarrow> nat \<Rightarrow> ndarray
     \<Rightarrow> error + ndarray" where
  "normalize_and_transpose ext norm_op ints tr i a =
     ebind (normalizer ext a (norm_op ! i) (ints ! i)) (\<lambda>a1.
     if length (shape a1) \<noteq> length tr then Inl AttributeError
     else np_transpose a1 tr)"

fun map_err :: "('a \<Rightarrow> error + 'b) \<Rightarrow> 'a list \<Rightarrow> error + 'b list" where
  "map_err f [] = Inr []"
| "map_err f (x # xs) = ebind (f x) (\<lambda>y. ebind (map_err f xs) (\<lambda>ys. Inr (y # ys)))"

text \<open>The loop of lines 262--266 over the images, threading the printed lines.\<close>

fun resize_images ::
  "externals \<Rightarrow> int list \<Rightarrow> ndarray list \<Rightarrow> string list
     \<Rightarrow> error + ndarray list \<times> string list" where
  "resize_images ext tshape [] out = Inr ([], out)"
| "resize_images ext tshape (a # as) out =
     ebind (try_resize ext 3 ''Unexpected values in either shape or image for resize''
              a tshape out) (\<lambda>(r, out1).
     ebind (resize_images ext tshape as out1) (\<lambda>(rs, out2).
     Inr (r # rs, out2)))"

text \<open>
  \<^verbatim>\<open>_resample_and_normalize_case\<close> (lines 231--275). \<open>seg\<close> is \<open>None\<close> at inference.
  The last argument and the last component of the result are the lines printed so
  far. \<open>orig_spacing\<close> is always an array; \<open>tr\<close> and \<open>tgt_spacing\<close> may be
  attributes of the preprocessor. The label is resized with order 0, which is also
  the only call that passes \<^verbatim>\<open>anti_aliasing=False\<close>.
\<close>

definition resample_and_normalize_case ::
  "preprocessor \<Rightarrow> externals \<Rightarrow> ndarray list \<Rightarrow> ndarray option \<Rightarrow> string list
     \<Rightarrow> nat pyseq \<Rightarrow> rat list \<Rightarrow> rat pyseq \<Rightarrow> string list
     \<Rightarrow> error + ndarray list \<times> ndarray option \<times> string list" where
  "resample_and_normalize_case self ext images seg norm_op tr orig_spacing tgt_spacing out =
     (case self_intensities self of
        None \<Rightarrow> Inl AttributeError
      | Some ints \<Rightarrow>
     ebind (py_assert (length images = length norm_op \<and> length norm_op = length ints)
              ''number of images, normalization  operations and intensities does not match.'')
       (\<lambda>_.
     ebind (map_err (\<lambda>i. normalize_and_transpose ext norm_op ints (elems tr) i (images ! i))
              [0..<length images]) (\<lambda>images1.
     if norm_op = [] then Inl IndexError
     else let out1 = out @ [''Normalized with: '' @ hd norm_op] in
     if length images1 = 0 then Inl IndexError
     else let shape_t = shape (hd images1) in
     ebind (np_take orig_spacing tr) (\<lambda>original_spacing_t.
     ebind (take_from tgt_spacing tr) (\<lambda>target_spacing_t.
     let tshape = target_shape original_spacing_t target_spacing_t shape_t in
     ebind (resize_images ext tshape images1 out1) (\<lambda>(images2, out2).
     (case seg of
        Some sg \<Rightarrow>
          ebind (np_transpose sg (elems tr)) (\<lambda>sg1.
          ebind (try_resize ext 0 ''Unexpected values in either shape or seg for resize''
                   sg1 tshape out2) (\<lambda>(sg2, out3).
          Inr (images2, Some sg2, out3)))
      | None \<Rightarrow> Inr (images2, None, out2))))))))"

section \<open>Files\<close>

text \<open>
  The per-case dictionary that training pickles (lines 107--217). The entry
  \<^verbatim>\<open>crop_to_nonzero\<close> holds the bounding box when cropping is on and the plan's flag
  otherwise.
\<close>

datatype box_or_flag = Box "int list" | Flag bool

datatype object_sizes = NoObjects | Sizes "rat list"

record train_properties =
  image_files :: "string list"
  segmentation_file :: string
  props_crop_to_nonzero :: box_or_flag
  props_original_spacing :: "rat list"
  original_size :: "nat list"
  props_original_orientation :: string
  new_spacing :: "rat list"
  new_size :: "nat list"
  new_direction :: string
  foreground_locations :: "nat list list"
  n_cc :: nat
  size_cc :: object_sizes

datatype fs_entry = NiftiFile nib_image | NpyFile ndarray | PickleFile train_properties

text \<open>The file system maps a path to the file there; the console is the printed lines.\<close>

record world =
  files :: "string \<Rightarrow> fs_entry option"
  stdout :: "string list"

definition isfile :: "(string \<Rightarrow> fs_entry option) \<Rightarrow> string \<Rightarrow> bool" where
  "isfile fs p = (fs p \<noteq> None)"

definition nib_load :: "(string \<Rightarrow> fs_entry option) \<Rightarrow> string \<Rightarrow> error + nib_image" where
  "nib_load fs p =
     (case fs p of
        None \<Rightarrow> Inl (FileNotFoundError p)
      | Some (NiftiFile im) \<Rightarrow> Inr im
      | Some _ \<Rightarrow> Inl (ImageFileError p))"

text \<open>\<^verbatim>\<open>os.path.join\<close> on POSIX paths and the last component of a path.\<close>

definition join2 :: "string \<Rightarrow> string \<Rightarrow> string" where
  "join2 a b =
     (if b \<noteq> [] \<and> hd b = CHR ''/'' then b
      else if a = [] \<or> last a = CHR ''/'' then a @ b
      else a @ ''/'' @ b)"

definition path_join :: "string \<Rightarrow> string list \<Rightarrow> string" where
  "path_join a bs = foldl join2 a bs"

definition basename :: "string \<Rightarrow> string" where
  "basename p = rev (takeWhile (\<lambda>ch. ch \<noteq> CHR ''/'') (rev p))"

definition startswith :: "string \<Rightarrow> string \<Rightarrow> bool" where
  "startswith s pre = (take (length pre) s = pre)"

section \<open>preprocess\_case\_for\_inference\<close>

text \<open>Python's truth value of a string that may be \<^verbatim>\<open>None\<close>.\<close>

definition truthy :: "string option \<Rightarrow> bool" where
  "truthy v = (case v of None \<Rightarrow> False | Some s \<Rightarrow> s \<noteq> [])"

text \<open>
  Lines 304--314. The condition is
  \<^verbatim>\<open>qcode or scode and self.plans.get('target_coordinate_system')\<close>, and \<^verbatim>\<open>and\<close> binds
  tighter than \<^verbatim>\<open>or\<close>. The branch taken reads
  \<^verbatim>\<open>self.plans['target_coordinate_system']\<close>, a KeyError when the key is absent.
  The result is the volumes, the record and the console.
\<close>

definition reorient_for_inference ::
  "preprocessor \<Rightarrow> externals \<Rightarrow> nib_image list \<Rightarrow> image_properties \<Rightarrow> string list
     \<Rightarrow> error + nib_image list \<times> image_properties \<times> string list" where
  "reorient_for_inference self ext images props out =
     (if qform_code (hd images) \<noteq> 0 \<or>
         (sform_code (hd images) \<noteq> 0 \<and> truthy (target_coordinate_system (plans self)))
      then
        (let props1 = props\<lparr>reoriented := Some True\<rparr>;
             orig = get_nib_orientation (hd images);
             props2 = props1\<lparr>original_orientation := Some orig\<rparr> in
         ebind (getkey ''target_coordinate_system'' (target_coordinate_system (plans self)))
           (\<lambda>tcs.
         let images1 = map (\<lambda>im. reorient_nib_image ext im orig tcs) images in
         Inr (images1, props2\<lparr>new_orientation := Some (get_nib_orientation (hd images1))\<rparr>,
              out)))
      else
        Inr (images, props\<lparr>reoriented := Some False\<rparr>,
             out @ [''Insufficient header information. Reorientation will not be attempted.'']))"

text \<open>\<^verbatim>\<open>np.stack(images)\<close> needs one array at least and equal shapes.\<close>

definition np_stack :: "ndarray list \<Rightarrow> error + ndarray" where
  "np_stack as =
     (if length as = 0 \<or> \<not> list_all (\<lambda>a. shape a = shape (hd as)) as then Inl ValueError
      else Inr \<lparr>shape = length as # shape (hd as),
                vals = (\<lambda>idx. vals (as ! hd idx) (tl idx))\<rparr>)"

definition newaxis :: "ndarray \<Rightarrow> ndarray" where
  "newaxis a = \<lparr>shape = 1 # shape a, vals = (\<lambda>idx. vals a (tl idx))\<rparr>"

text \<open>
  Lines 338--339: every image is padded, and \<^verbatim>\<open>padding\<close> is what the last call
  returned. The second argument is \<^verbatim>\<open>padding\<close> before the loop (unbound).
\<close>

fun pad_images ::
  "externals \<Rightarrow> nat list \<Rightarrow> ndarray list \<Rightarrow> int list option
     \<Rightarrow> error + ndarray list \<times> int list option" where
  "pad_images ext patch_size [] pad0 = Inr ([], pad0)"
| "pad_images ext patch_size (a # as) pad0 =
     ebind (pad_to_size ext a patch_size) (\<lambda>(a1, pad1).
     ebind (pad_images ext patch_size as (Some pad1)) (\<lambda>(as1, pad2).
     Inr (a1 # as1, pad2)))"

text \<open>
  Lines 292--314: load the volumes, record the header of the first one, check that it
  is 2D or 3D, and reorient. \<^verbatim>\<open>images[0]\<close> on an empty list is an IndexError.
\<close>

definition load_for_inference ::
  "preprocessor \<Rightarrow> externals \<Rightarrow> (string \<Rightarrow> fs_entry option) \<Rightarrow> string list
     \<Rightarrow> error + nib_image list \<times> image_properties \<times> string list" where
  "load_for_inference self ext fs paths =
     ebind (map_err (nib_load fs) paths) (\<lambda>images.
     if length images = 0 then Inl IndexError
     else
       ebind (py_assert (length (nib_shape (hd images)) \<in> {2, 3})
                ''images must be either 2D or 3D for preprocessing'') (\<lambda>_.
       reorient_for_inference self ext images
         (empty_properties
            \<lparr>original_spacing := Some (get_nib_spacing (hd images)),
             original_shape := Some (nib_shape (hd images)),
             qform := Some (img_qform (hd images)),
             sform := Some (img_sform (hd images))\<rparr>) []))"

text \<open>
  Lines 316--327: the affine, the arrays, the shape before cropping, the crop to the
  bounding box of the first array when the plan asks for it, the shape after it.
\<close>

definition crop_for_inference ::
  "preprocessor \<Rightarrow> externals \<Rightarrow> nib_image list \<Rightarrow> image_properties
     \<Rightarrow> ndarray list \<times> image_properties" where
  "crop_for_inference self ext images1 props2 =
     (let props3 = props2\<lparr>affine := Some (img_affine (hd images1))\<rparr>;
          arrays = map nib_to_np images1;
          props4 = props3\<lparr>uncropped_shape := Some (shape (hd arrays))\<rparr> in
      if crop_to_nonzero (plans self)
      then (let box = get_bbox_for_foreground ext (hd arrays);
                arrays1 = map (\<lambda>a. crop_to_box ext a box) arrays;
                props5 = props4\<lparr>nonzero_box := Some box\<rparr> in
            (arrays1, props5\<lparr>cropped_shape := Some (shape (hd arrays1))\<rparr>))
      else (arrays, props4\<lparr>cropped_shape := Some (shape (hd arrays))\<rparr>))"

text \<open>
  Lines 329--346: resample and normalize, record the shape, pad every array to the
  patch size, record the padded shape and the padding, stack. The cast of the tensor
  to 32-bit floats is not modelled.
\<close>

definition resample_pad_stack ::
  "preprocessor \<Rightarrow> externals \<Rightarrow> ndarray list \<Rightarrow> image_properties \<Rightarrow> nat list \<Rightarrow> string list
     \<Rightarrow> error + ndarray \<times> image_properties \<times> string list" where
  "resample_pad_stack self ext arrays1 props6 patch_size out1 =
     ebind (getkey ''original_spacing'' (original_spacing props6)) (\<lambda>spacing.
     ebind (resample_and_normalize_case self ext arrays1 None
              (normalization_scheme (plans self)) (self_transpose_forward self)
              spacing (self_target_spacing self) out1) (\<lambda>(arrays2, sg, out2).
     if length arrays2 = 0 then Inl IndexError
     else
       ebind (pad_images ext patch_size arrays2 None) (\<lambda>(arrays3, last_padding).
       if length arrays3 = 0 then Inl IndexError
       else
         ebind (getkey ''padding'' last_padding) (\<lambda>pad.
         ebind (np_stack arrays3) (\<lambda>stacked.
         Inr (newaxis stacked,
              props6\<lparr>resampled_transposed_shape := Some (shape (hd arrays2)),
                     padded_shape := Some (shape (hd arrays3)),
                     padding := Some pad\<rparr>,
              out2))))))"

text \<open>
  The method (lines 290--346). \<open>paths\<close> are the files of the modalities. The result
  is the object after \<^verbatim>\<open>initialize_properties\<close>, the tensor, the record and the
  printed lines.
\<close>

definition preprocess_case_for_inference ::
  "preprocessor \<Rightarrow> externals \<Rightarrow> (string \<Rightarrow> fs_entry option) \<Rightarrow> string list \<Rightarrow> nat list
     \<Rightarrow> error + preprocessor \<times> ndarray \<times> image_properties \<times> string list" where
  "preprocess_case_for_inference self0 ext fs paths patch_size =
     (let self = initialize_properties self0 in
      ebind (load_for_inference self ext fs paths) (\<lambda>(images1, props2, out1).
      case crop_for_inference self ext images1 props2 of (arrays1, props6) \<Rightarrow>
      ebind (resample_pad_stack self ext arrays1 props6 patch_size out1)
        (\<lambda>(tensor, props9, out2).
      Inr (self, tensor, props9, out2))))"

section \<open>\_preprocess\_train\_subject\<close>

text \<open>
  \<^verbatim>\<open>np.allclose(a, b)\<close> with the default tolerances: every \<open>|a - b|\<close> is at most
  \<open>1e-8 + 1e-5 * |b|\<close>. One-dimensional arguments broadcast when the lengths agree or
  one of them is one; otherwise numpy raises ValueError.
\<close>

definition isclose :: "rat \<Rightarrow> rat \<Rightarrow> bool" where
  "isclose a b = (\<bar>a - b\<bar> \<le> 1 / 100000000 + (1 / 100000) * \<bar>b\<bar>)"

definition np_allclose :: "rat list \<Rightarrow> rat list \<Rightarrow> error + bool" where
  "np_allclose a b =
     (if length a = length b then Inr (list_all2 isclose a b)
      else if length b = 1 then Inr (list_all (\<lambda>x. isclose x (hd b)) a)
      else if length a = 1 then Inr (list_all (\<lambda>y. isclose (hd a) y) b)
      else Inl ValueError)"

text \<open>
  The three assertions that the source makes for the label (lines 123--132) and for
  every modality (lines 137--146), each time against \<^verbatim>\<open>images[0]\<close>.
\<close>

definition check_registered :: "nib_image \<Rightarrow> nib_image \<Rightarrow> error + unit" where
  "check_registered first other =
     ebind (py_assert (nib_shape first = nib_shape other) ''Sizes do not match'') (\<lambda>_.
     ebind (np_allclose (get_nib_spacing first) (get_nib_spacing other)) (\<lambda>close.
     ebind (py_assert close ''Spacings do not match'') (\<lambda>_.
     py_assert (get_nib_orientation first = get_nib_orientation other)
       ''Directions do not match'')))"

text \<open>Lines 116--146, the block under \<^verbatim>\<open>if not self.disable_unittests\<close>.\<close>

definition unittests :: "plans \<Rightarrow> nib_image list \<Rightarrow> nib_image \<Rightarrow> error + unit" where
  "unittests pl images seg =
     ebind (py_assert (length images > 0) ''found no images'') (\<lambda>_.
     ebind (py_assert (length (nib_shape (hd images)) = data_dimensions pl)
              ''image should be shape (x, y(, z))'') (\<lambda>_.
     ebind (check_registered (hd images) seg) (\<lambda>_.
     if length images > 1
     then for_each images (\<lambda>im u. check_registered (hd images) im) ()
     else Inr ())))"

text \<open>
  Lines 159--168: training reorients exactly when the first volume has a coded qform
  or sform. The result is the arrays, the label array, \<^verbatim>\<open>original_orientation\<close> and
  \<^verbatim>\<open>final_direction\<close>.
\<close>

definition reorient_for_training ::
  "preprocessor \<Rightarrow> externals \<Rightarrow> nib_image list \<Rightarrow> nib_image
     \<Rightarrow> error + ndarray list \<times> ndarray \<times> string \<times> string" where
  "reorient_for_training self ext images seg =
     (if qform_code (hd images) \<noteq> 0 \<or> sform_code (hd images) \<noteq> 0
      then
        (let orig = get_nib_orientation (hd images) in
         ebind (getkey ''target_coordinate_system'' (target_coordinate_system (plans self)))
           (\<lambda>final_direction.
         Inr (map (\<lambda>im. nib_to_np (reorient_nib_image ext im orig final_direction)) images,
              nib_to_np (reorient_nib_image ext seg orig final_direction),
              orig, final_direction)))
      else Inr (map nib_to_np images, nib_to_np seg, ''INVALID'', ''INVALID''))"

text \<open>All multi-indices of a shape in row-major order, and the values of an array.\<close>

fun all_indices :: "nat list \<Rightarrow> nat list list" where
  "all_indices [] = [[]]"
| "all_indices (n # ns) = concat (map (\<lambda>i. map ((#) i) (all_indices ns)) [0..<n])"

definition flat_values :: "ndarray \<Rightarrow> rat list" where
  "flat_values a = map (vals a) (all_indices (shape a))"

definition np_unique :: "ndarray \<Rightarrow> rat list" where
  "np_unique a = sort (remdups (flat_values a))"

text \<open>
  The cast of a number to a 32-bit float: the nearest number with a significand of
  24 bits (ties to the even one), in steps of \<open>pow2 (- 149)\<close> below \<open>pow2 (- 126)\<close>,
  and an infinity when the rounded magnitude reaches \<open>pow2 128\<close>. For \<open>x \<noteq> 0\<close>,
  \<open>binary_exponent x\<close> is the integer \<open>e\<close> with \<open>pow2 e \<le> \<bar>x\<bar> < pow2 (e + 1)\<close>, found from the numbers of
  binary digits of the numerator and the denominator of \<open>\<bar>x\<bar>\<close>.
\<close>

datatype f32 = Finite rat | PosInf | NegInf

function bitlength :: "int \<Rightarrow> int" where
  "bitlength n = (if n \<le> 0 then 0 else 1 + bitlength (n div 2))"
  by pat_completeness auto
termination
  by (relation "measure nat") auto

definition pow2 :: "int \<Rightarrow> rat" where
  "pow2 e = (if 0 \<le> e then 2 ^ nat e else 1 / 2 ^ nat (- e))"

definition binary_exponent :: "rat \<Rightarrow> int" where
  "binary_exponent x =
     (let pq = quotient_of \<bar>x\<bar>;
          d = bitlength (fst pq) - bitlength (snd pq)
      in if pow2 d \<le> \<bar>x\<bar> then d else d - 1)"

definition astype_float32 :: "rat \<Rightarrow> f32" where
  "astype_float32 x =
     (if x = 0 then Finite 0
      else
        let q = pow2 (max (binary_exponent x) (- 126) - 23);
            r = of_int (np_round (x / q)) * q
        in if pow2 128 \<le> r then PosInf
           else if r \<le> - pow2 128 then NegInf
           else Finite r)"

text \<open>
  Lines 171--173: \<^verbatim>\<open>expected_labels\<close> are the plan's classes as 32-bit floats,
  \<^verbatim>\<open>actual_labels\<close> the distinct values of the label array cast to 32-bit floats, and
  the assertion is that every actual label is among the expected ones.
\<close>

definition labels_expected :: "rat list \<Rightarrow> ndarray \<Rightarrow> bool" where
  "labels_expected cls seg =
     (let expected_labels = map astype_float32 cls;
          actual_labels = map astype_float32 (np_unique seg)
      in list_all (\<lambda>v. v \<in> set expected_labels) actual_labels)"

text \<open>\<^verbatim>\<open>stacked[k]\<close>, \<^verbatim>\<open>np.nonzero(a)\<close> as index rows, \<^verbatim>\<open>xs[::n]\<close> and the counts of \<^verbatim>\<open>np.unique\<close>.\<close>

definition channel :: "ndarray \<Rightarrow> nat \<Rightarrow> ndarray" where
  "channel a k = \<lparr>shape = tl (shape a), vals = (\<lambda>idx. vals a (k # idx))\<rparr>"

definition np_nonzero :: "ndarray \<Rightarrow> nat list list" where
  "np_nonzero a = filter (\<lambda>idx. vals a idx \<noteq> 0) (all_indices (shape a))"

fun every_nth :: "nat \<Rightarrow> 'a list \<Rightarrow> 'a list" where
  "every_nth n [] = []"
| "every_nth n (x # xs) = x # every_nth n (drop (n - 1) xs)"

definition unique_counts :: "ndarray \<Rightarrow> nat list" where
  "unique_counts a =
     (let vs = flat_values a in map (\<lambda>u. length (filter (\<lambda>v. v = u) vs)) (sort (remdups vs)))"

text \<open>
  Line 106: the image files whose name starts with the subject's name and an
  underscore. Line 111: the label file.
\<close>

definition modality_paths :: "preprocessor \<Rightarrow> string \<Rightarrow> string list" where
  "modality_paths self subject_id =
     filter (\<lambda>impath. startswith (basename impath) (subject_id @ ''_'')) (imagepaths self)"

definition label_path :: "preprocessor \<Rightarrow> string \<Rightarrow> string" where
  "label_path self subject_id =
     path_join (input_dir self) [''labelsTr'', subject_id @ ''.nii.gz'']"

text \<open>
  Lines 106--146: the volumes of the modalities, the label volume, and the checks
  unless they are disabled.
\<close>

definition load_for_training ::
  "preprocessor \<Rightarrow> (string \<Rightarrow> fs_entry option) \<Rightarrow> string
     \<Rightarrow> error + string list \<times> string \<times> nib_image list \<times> nib_image" where
  "load_for_training self fs subject_id =
     ebind (map_err (nib_load fs) (modality_paths self subject_id)) (\<lambda>images.
     ebind (nib_load fs (label_path self subject_id)) (\<lambda>seg.
     ebind (if \<not> disable_unittests self then unittests (plans self) images seg else Inr ())
       (\<lambda>_.
     Inr (modality_paths self subject_id, label_path self subject_id, images, seg))))"

text \<open>
  Lines 151--154: \<^verbatim>\<open>self.target_spacing\<close> when its \<^verbatim>\<open>size\<close> is not zero, the
  case's own spacing otherwise.
\<close>

definition select_target_spacing :: "preprocessor \<Rightarrow> rat list \<Rightarrow> error + rat pyseq" where
  "select_target_spacing self orig_spacing =
     ebind (size_of (self_target_spacing self)) (\<lambda>n.
     Inr (if n \<noteq> 0 then self_target_spacing self else NpArray orig_spacing))"

text \<open>Lines 178--185: the crop, and the entry \<^verbatim>\<open>crop_to_nonzero\<close> of the dictionary.\<close>

definition crop_for_training ::
  "preprocessor \<Rightarrow> externals \<Rightarrow> ndarray list \<Rightarrow> ndarray
     \<Rightarrow> ndarray list \<times> ndarray \<times> box_or_flag" where
  "crop_for_training self ext arrays sg =
     (if crop_to_nonzero (plans self)
      then (let box = get_bbox_for_foreground ext (hd arrays) in
            (map (\<lambda>a. crop_to_box ext a box) arrays, crop_to_box ext sg box, Box box))
      else (arrays, sg, Flag (crop_to_nonzero (plans self))))"

text \<open>
  Lines 199--206: the foreground locations, the connected components and their
  sizes, from the last channel of the stacked array.
\<close>

definition foreground_statistics ::
  "externals \<Rightarrow> ndarray \<Rightarrow> rat pyseq \<Rightarrow> nat list list \<times> nat \<times> object_sizes" where
  "foreground_statistics ext stacked tgt_spacing =
     (let label = channel stacked (hd (shape stacked) - 1);
          foreground_locs = every_nth 10 (np_nonzero label);
          (numbered_ground_truth, ground_truth_numb_lesion) = connected_components ext label
      in (foreground_locs, ground_truth_numb_lesion,
          if ground_truth_numb_lesion = 0 then NoObjects
          else Sizes (map (\<lambda>i. of_nat i * prod_list (elems tgt_spacing))
                        (tl (unique_counts numbered_ground_truth)))))"

text \<open>
  Lines 187--217: resample and normalize, stack the modalities and the label, and
  fill the dictionary.
\<close>

definition resample_and_describe ::
  "preprocessor \<Rightarrow> externals \<Rightarrow> string list \<Rightarrow> string \<Rightarrow> rat list \<Rightarrow> nat list \<Rightarrow> rat pyseq
     \<Rightarrow> string \<Rightarrow> string \<Rightarrow> ndarray list \<Rightarrow> ndarray \<Rightarrow> box_or_flag \<Rightarrow> string list
     \<Rightarrow> error + ndarray \<times> train_properties \<times> string list" where
  "resample_and_describe self ext paths segpath orig_spacing orig_size tgt_spacing
       orig_orientation final_direction arrays1 sg1 crop_entry out1 =
     ebind (resample_and_normalize_case self ext arrays1 (Some sg1)
              (normalization_scheme (plans self)) (self_transpose_forward self)
              orig_spacing tgt_spacing out1) (\<lambda>(arrays2, sg2, out2).
     ebind (np_stack (arrays2 @ (case sg2 of None \<Rightarrow> [] | Some s \<Rightarrow> [s]))) (\<lambda>stacked.
     ebind (take_from tgt_spacing (self_transpose_forward self)) (\<lambda>new_sp.
     case foreground_statistics ext stacked tgt_spacing of (locs, n, sizes) \<Rightarrow>
     Inr (stacked,
          \<lparr>image_files = paths, segmentation_file = segpath,
           props_crop_to_nonzero = crop_entry,
           props_original_spacing = orig_spacing, original_size = orig_size,
           props_original_orientation = orig_orientation,
           new_spacing = new_sp, new_size = shape (channel stacked 0),
           new_direction = final_direction,
           foreground_locations = locs, n_cc = n, size_cc = sizes\<rparr>,
          out2))))"

text \<open>
  Lines 148--217: everything between the checks and the two writes. The label values
  are checked after the reorientation and before the crop, whatever
  \<^verbatim>\<open>disable_unittests\<close> is.
\<close>

definition transform_for_training ::
  "preprocessor \<Rightarrow> externals \<Rightarrow> string list \<Rightarrow> string \<Rightarrow> nib_image list \<Rightarrow> nib_image
     \<Rightarrow> string list \<Rightarrow> error + ndarray \<times> train_properties \<times> string list" where
  "transform_for_training self ext paths segpath images seg out1 =
     (if length images = 0 then Inl IndexError
      else
        ebind (select_target_spacing self (get_nib_spacing (hd images))) (\<lambda>tgt_spacing.
        ebind (reorient_for_training self ext images seg)
          (\<lambda>(arrays, sg, orig_orientation, final_direction).
        ebind (py_assert (labels_expected (classes (plans self)) sg)
                 ''Unexpected labels found'') (\<lambda>_.
        case crop_for_training self ext arrays sg of (arrays1, sg1, crop_entry) \<Rightarrow>
        resample_and_describe self ext paths segpath
          (get_nib_spacing (hd images)) (nib_shape (hd images)) tgt_spacing
          orig_orientation final_direction arrays1 sg1 crop_entry out1))))"

text \<open>The paths of the two artifacts of a case (lines 93--96).\<close>

definition subject_id_of :: "string \<Rightarrow> string" where
  "subject_id_of subject_file = take (length subject_file - 7) subject_file"

definition arraypath :: "preprocessor \<Rightarrow> string \<Rightarrow> string" where
  "arraypath self subject_file =
     path_join (target_dir self) [subject_id_of subject_file @ ''.npy'']"

definition picklepath :: "preprocessor \<Rightarrow> string \<Rightarrow> string" where
  "picklepath self subject_file =
     path_join (target_dir self) [subject_id_of subject_file @ ''.pkl'']"

text \<open>
  The method (lines 92--229). \<open>subject_file\<close> is the name of the label file;
  \<^verbatim>\<open>subject_id[:-len('.nii.gz')]\<close> drops its last seven characters. The world is the
  file system and the console before the call; the result is the world after it.
\<close>

definition preprocess_train_subject ::
  "preprocessor \<Rightarrow> externals \<Rightarrow> world \<Rightarrow> string \<Rightarrow> error + world" where
  "preprocess_train_subject self ext w subject_file =
     (let subject_id = subject_id_of subject_file;
          out1 = stdout w @ [''Preprocessing: '' @ subject_id] in
      if isfile (files w) (arraypath self subject_file) \<and>
         isfile (files w) (picklepath self subject_file)
      then Inr (w\<lparr>stdout := out1 @ [''Case: '' @ subject_id @ '' already exists. Skipping.'']\<rparr>)
      else
        ebind (load_for_training self (files w) subject_id) (\<lambda>(paths, segpath, images, seg).
        ebind (transform_for_training self ext paths segpath images seg out1)
          (\<lambda>(stacked, image_props, out2).
        Inr \<lparr>files = (files w)(arraypath self subject_file \<mapsto> NpyFile stacked,
                               picklepath self subject_file \<mapsto> PickleFile image_props),
             stdout = out2 @ [''Saving '' @ subject_id @ '' in '' @ arraypath self subject_file]\<rparr>)))"

section \<open>Concrete cases\<close>

text \<open>
  An instance of the library functions: nearest-neighbour resize, the identity as
  normalizer, a reorientation that relabels the axes, the whole array as bounding
  box, cropping by slicing, and padding with zeros after the data.
\<close>

definition ex_resize :: "nat \<Rightarrow> ndarray \<Rightarrow> int list \<Rightarrow> error + ndarray" where
  "ex_resize ord a s =
     Inr \<lparr>shape = map nat s,
          vals = (\<lambda>idx. vals a (map (\<lambda>(i, (n_in, n_out)). (i * n_in) div n_out)
                                  (zip idx (zip (shape a) (map nat s)))))\<rparr>"

definition pairs :: "int list \<Rightarrow> (int \<times> int) list" where
  "pairs box = map (\<lambda>k. (box ! (2 * k), box ! (2 * k + 1))) [0..<length box div 2]"

definition ex_crop_to_box :: "ndarray \<Rightarrow> int list \<Rightarrow> ndarray" where
  "ex_crop_to_box a box = (case getslice a (pairs box) of Inr r \<Rightarrow> r | Inl e \<Rightarrow> a)"

definition ex_pad_to_size :: "ndarray \<Rightarrow> nat list \<Rightarrow> error + ndarray \<times> int list" where
  "ex_pad_to_size a psize =
     Inr (\<lparr>shape = map2 max (shape a) psize,
           vals = (\<lambda>idx. if in_bounds (shape a) idx then vals a idx else 0)\<rparr>,
          concat (map2 (\<lambda>n p. [0, int (max n p) - int n]) (shape a) psize))"

definition ex_externals :: externals where
  "ex_externals =
     \<lparr>resize = ex_resize,
      normalizer = (\<lambda>a scheme stats. Inr a),
      reorient_nib_image = (\<lambda>im src tgt. im\<lparr>axcodes := tgt\<rparr>),
      get_bbox_for_foreground = (\<lambda>a. concat (map (\<lambda>n. [0, int n]) (shape a))),
      crop_to_box = ex_crop_to_box,
      pad_to_size = ex_pad_to_size,
      connected_components = (\<lambda>a. (a, 0))\<rparr>"

text \<open>The same library, with a resize that always raises OverflowError.\<close>

definition overflow_externals :: externals where
  "overflow_externals = ex_externals\<lparr>resize := (\<lambda>ord a s. Inl OverflowError)\<rparr>"

text \<open>A two-dimensional plan with two classes that swaps the axes, and its preprocessor.\<close>

definition ex_plans :: plans where
  "ex_plans =
     \<lparr>plans_name = ''YuccaPlanner'', crop_to_nonzero = True,
      normalization_scheme = [''no_norm''],
      transpose_forward = [1, 0], transpose_backward = [1, 0],
      target_spacing = [1, 1], target_coordinate_system = Some ''RAS'',
      classes = [0, 1], data_dimensions = 2, intensities = [[]]\<rparr>"

definition ex_self :: preprocessor where
  "ex_self =
     (initialize_properties (init ex_plans ''Task001'' False))
       \<lparr>target_dir := ''/pre/Task001/YuccaPlanner'', input_dir := ''/raw/Task001'',
        imagepaths := [''/raw/Task001/imagesTr/case_1_000.nii.gz'']\<rparr>"

text \<open>An array whose value at an index spells the index in decimal digits.\<close>

definition digits :: "nat list \<Rightarrow> ndarray" where
  "digits s = \<lparr>shape = s, vals = (\<lambda>idx. of_nat (foldl (\<lambda>acc i. 10 * acc + i) 0 idx))\<rparr>"

definition ones :: "nat list \<Rightarrow> ndarray" where
  "ones s = \<lparr>shape = s, vals = (\<lambda>idx. 1)\<rparr>"

text \<open>A world in which the two artifacts of \<open>case_1\<close> exist and no raw file does.\<close>

definition ex_train_properties :: train_properties where
  "ex_train_properties =
     \<lparr>image_files = [], segmentation_file = [], props_crop_to_nonzero = Flag False,
      props_original_spacing = [1, 1], original_size = [2, 2],
      props_original_orientation = ''RAS'', new_spacing = [1, 1], new_size = [2, 2],
      new_direction = ''RAS'', foreground_locations = [], n_cc = 0, size_cc = NoObjects\<rparr>"

definition done_world :: world where
  "done_world =
     \<lparr>files = [''/pre/Task001/YuccaPlanner/case_1.npy'' \<mapsto> NpyFile (ones [2, 2, 2]),
               ''/pre/Task001/YuccaPlanner/case_1.pkl'' \<mapsto> PickleFile ex_train_properties],
      stdout = []\<rparr>"

text \<open>
  The record of a \<open>4 \<times> 3\<close> volume whose foreground box is rows
  1 to 3 and columns 0 to 1: the crop is \<open>3 \<times> 2\<close>, transposed and resampled it is
  \<open>2 \<times> 3\<close>, and padding one row after and one column before gives \<open>3 \<times> 4\<close>.
\<close>

definition ex_properties :: image_properties where
  "ex_properties =
     empty_properties
       \<lparr>original_spacing := Some [1, 1], original_shape := Some [4, 3],
        reoriented := Some False, uncropped_shape := Some [4, 3],
        nonzero_box := Some [1, 4, 0, 2], cropped_shape := Some [3, 2],
        resampled_transposed_shape := Some [2, 3], padded_shape := Some [3, 4],
        padding := Some [0, 1, 1, 0]\<rparr>"

text \<open>A store with a prediction for that case (one item, two classes) and the record.\<close>

definition ex_heap :: heap where
  "ex_heap = [ArrObj (digits [1, 2, 3, 4]), DictObj ex_properties]"

text \<open>The same store with a batch of two items.\<close>

definition two_item_heap :: heap where
  "two_item_heap = [ArrObj (digits [2, 2, 3, 4]), DictObj ex_properties]"

text \<open>
  The plan without cropping, and the record of the same volume under it: the
  cropped shape is the uncropped shape and there is no box. The prediction is one
  everywhere.
\<close>

definition nocrop_self :: preprocessor where
  "nocrop_self = initialize_properties (init (ex_plans\<lparr>crop_to_nonzero := False\<rparr>) ''Task001'' False)"

definition nocrop_properties :: image_properties where
  "nocrop_properties = ex_properties\<lparr>nonzero_box := None, cropped_shape := Some [4, 3],
     resampled_transposed_shape := Some [3, 4], padding := Some [0, 0, 0, 0]\<rparr>"

definition nocrop_heap :: heap where
  "nocrop_heap = [ArrObj (ones [1, 2, 3, 4]), DictObj nocrop_properties]"

text \<open>The canvas that a call returned, and whether every value of an array is \<open>v\<close>.\<close>

definition returned_canvas :: "error + nat \<times> heap \<Rightarrow> ndarray option" where
  "returned_canvas res =
     (case res of
        Inl e \<Rightarrow> None
      | Inr (r, h) \<Rightarrow>
          (if r < length h then (case h ! r of ArrObj a \<Rightarrow> Some a | DictObj d \<Rightarrow> None)
           else None))"

definition all_values :: "rat \<Rightarrow> ndarray \<Rightarrow> bool" where
  "all_values v a = list_all (\<lambda>x. x = v) (flat_values a)"

text \<open>
  Raw files for \<open>case_1\<close>: one modality of shape \<open>4 \<times> 3\<close> with a coded sform only,
  and a label volume of zeros and ones. \<open>stretched_label\<close> has another spacing,
  \<open>stray_label\<close> holds the value 7, which is not a class of the plan.
\<close>

definition identity4 :: matrix where
  "identity4 = [[1, 0, 0, 0], [0, 1, 0, 0], [0, 0, 1, 0], [0, 0, 0, 1]]"

definition ex_volume :: nib_image where
  "ex_volume =
     \<lparr>dataobj = digits [4, 3], zooms = [1, 1], axcodes = ''LPS'',
      qform_code = 0, sform_code = 1,
      img_qform = identity4, img_sform = identity4, img_affine = identity4\<rparr>"

definition ex_label :: nib_image where
  "ex_label = ex_volume\<lparr>dataobj := \<lparr>shape = [4, 3], vals = (\<lambda>idx. if hd idx = 2 then 1 else 0)\<rparr>\<rparr>"

definition stretched_label :: nib_image where
  "stretched_label = ex_label\<lparr>zooms := [1, 2]\<rparr>"


definition raw_files :: "nib_image \<Rightarrow> string \<Rightarrow> fs_entry option" where
  "raw_files label =
     [''/raw/Task001/imagesTr/case_1_000.nii.gz'' \<mapsto> NiftiFile ex_volume,
      ''/raw/Task001/labelsTr/case_1.nii.gz'' \<mapsto> NiftiFile label]"

definition raw_world :: "nib_image \<Rightarrow> world" where
  "raw_world label = \<lparr>files = raw_files label, stdout = []\<rparr>"


text \<open>The preprocessor of a plan that names no target coordinate system.\<close>

definition untargeted_self :: preprocessor where
  "untargeted_self =
     initialize_properties (init (ex_plans\<lparr>target_coordinate_system := None\<rparr>) ''Task001'' False)"



text \<open>
  The library whose \<^verbatim>\<open>resize\<close> raises OverflowError for the images (order 3) only,
  and the preprocessor of a plan with target spacing 2.
\<close>

definition image_overflow_externals :: externals where
  "image_overflow_externals =
     ex_externals\<lparr>resize := (\<lambda>ord a s. if ord = 3 then Inl OverflowError
                                        else ex_resize ord a s)\<rparr>"

definition coarse_self :: preprocessor where
  "coarse_self =
     (initialize_properties (init (ex_plans\<lparr>target_spacing := [2, 2]\<rparr>) ''Task001'' False))
       \<lparr>target_dir := ''/pre/Task001/YuccaPlanner'', input_dir := ''/raw/Task001'',
        imagepaths := [''/raw/Task001/imagesTr/case_1_000.nii.gz'']\<rparr>"

section \<open>Predicates of the statements\<close>

text \<open>
  What a loop body may do to the store when only the object at \<open>canvas\<close> is written:
  the store keeps its size and every other object.
\<close>

definition frame :: "nat \<Rightarrow> heap \<Rightarrow> heap \<Rightarrow> bool" where
  "frame canvas h h' = (length h' = length h \<and> (\<forall>p. p \<noteq> canvas \<longrightarrow> h' ! p = h ! p))"

text \<open>
  The header of a volume carries a coded qform or sform; and the condition of line
  304 of the source, under which inference reorients.
\<close>

definition header_coded :: "nib_image \<Rightarrow> bool" where
  "header_coded im = (qform_code im \<noteq> 0 \<or> sform_code im \<noteq> 0)"

definition inference_gate :: "plans \<Rightarrow> nib_image \<Rightarrow> bool" where
  "inference_gate pl im =
     (qform_code im \<noteq> 0 \<or> (sform_code im \<noteq> 0 \<and> truthy (target_coordinate_system pl)))"

text \<open>A result that is not a KeyError.\<close>

definition no_key_error :: "error + 'a \<Rightarrow> bool" where
  "no_key_error r = (\<forall>k. r \<noteq> Inl (KeyError k))"

text \<open>
  The library in which \<^verbatim>\<open>resize\<close> never raises OverflowError but returns its
  argument where the given \<^verbatim>\<open>resize\<close> raises it; what a call of \<^verbatim>\<open>resize\<close> under
  the handler leaves in the array and on the console; and the results of the three
  methods without the console.
\<close>

definition absorbing :: "externals \<Rightarrow> externals" where
  "absorbing ext =
     ext\<lparr>resize := (\<lambda>ord a s. case resize ext ord a s of
                                   Inr r \<Rightarrow> Inr r
                                 | Inl OverflowError \<Rightarrow> Inr a
                                 | Inl e \<Rightarrow> Inl e)\<rparr>"

definition kept_or_resized :: "externals \<Rightarrow> nat \<Rightarrow> ndarray \<Rightarrow> int list \<Rightarrow> ndarray" where
  "kept_or_resized ext ord a t = (case resize ext ord a t of Inr r \<Rightarrow> r | Inl e \<Rightarrow> a)"

definition overflow_lines ::
  "externals \<Rightarrow> nat \<Rightarrow> string \<Rightarrow> ndarray \<Rightarrow> int list \<Rightarrow> string list" where
  "overflow_lines ext ord msg a t =
     (case resize ext ord a t of Inl OverflowError \<Rightarrow> [msg] | _ \<Rightarrow> [])"

definition computed :: "error + 'a \<times> 'b \<times> string list \<Rightarrow> error + 'a \<times> 'b" where
  "computed r = map_sum id (\<lambda>(x, y, out). (x, y)) r"

definition computed_inference ::
  "error + preprocessor \<times> ndarray \<times> image_properties \<times> string list
     \<Rightarrow> error + preprocessor \<times> ndarray \<times> image_properties" where
  "computed_inference r = map_sum id (\<lambda>(s, tensor, props, out). (s, tensor, props)) r"

definition written_files :: "error + world \<Rightarrow> error + (string \<Rightarrow> fs_entry option)" where
  "written_files r = map_sum id files r"

section \<open>Properties\<close>

lemma ebind_simps [simp]:
  "ebind (Inl e) f = Inl e"
  "ebind (Inr x) f = f x"
  by (simp_all add: ebind_def)

subsection \<open>Idempotence of the training preprocessor\<close>

text \<open>
  C8. When the array file and the metadata file of a case both exist,
  \<^verbatim>\<open>_preprocess_train_subject\<close> returns at once: it succeeds whatever the raw files
  are (nothing is loaded), and the file system after the call is the file system
  before it. Hence a run that follows a successful run of the same case writes
  nothing: the files after the second run are the files after the first.
\<close>

lemma ebind_Inr_iff: "ebind m f = Inr y \<longleftrightarrow> (\<exists>x. m = Inr x \<and> f x = Inr y)"
  by (cases m) simp_all

lemma ebind_Inl_iff: "ebind m f = Inl e \<longleftrightarrow> m = Inl e \<or> (\<exists>x. m = Inr x \<and> f x = Inl e)"
  by (cases m) simp_all

theorem train_subject_skips_existing_case:
  "(isfile (files w) (arraypath self f) \<and> isfile (files w) (picklepath self f)
    \<longrightarrow> (\<exists>w'. preprocess_train_subject self ext w f = Inr w' \<and> files w' = files w)) \<and>
   (\<forall>w1. preprocess_train_subject self ext w f = Inr w1
    \<longrightarrow> (\<exists>w2. preprocess_train_subject self ext w1 f = Inr w2 \<and> files w2 = files w1))"
proof (intro conjI impI allI)
  assume "isfile (files w) (arraypath self f) \<and> isfile (files w) (picklepath self f)"
  then show "\<exists>w'. preprocess_train_subject self ext w f = Inr w' \<and> files w' = files w"
    by (simp add: preprocess_train_subject_def Let_def)
next
  fix w1
  assume run: "preprocess_train_subject self ext w f = Inr w1"
  have "isfile (files w1) (arraypath self f) \<and> isfile (files w1) (picklepath self f)"
  proof (cases "isfile (files w) (arraypath self f) \<and> isfile (files w) (picklepath self f)")
    case True
    with run show ?thesis
      by (auto simp: preprocess_train_subject_def Let_def)
  next
    case False
    with run obtain r where
      "(case r of (stacked, image_props, out2) \<Rightarrow>
          Inr \<lparr>files = (files w)(arraypath self f \<mapsto> NpyFile stacked,
                                 picklepath self f \<mapsto> PickleFile image_props),
               stdout = out2 @ [''Saving '' @ subject_id_of f @ '' in '' @ arraypath self f]\<rparr>)
        = (Inr w1 :: error + world)"
      by (auto simp: preprocess_train_subject_def Let_def ebind_Inr_iff)
    then show ?thesis
      by (cases r) (auto simp: isfile_def)
  qed
  then show "\<exists>w2. preprocess_train_subject self ext w1 f = Inr w2 \<and> files w2 = files w1"
    by (simp add: preprocess_train_subject_def Let_def)
qed

theorem train_subject_skips_existing_case_witness:
  "isfile (files done_world) (arraypath ex_self ''case_1.nii.gz'') \<and>
   isfile (files done_world) (picklepath ex_self ''case_1.nii.gz'') \<and>
   arraypath ex_self ''case_1.nii.gz'' = ''/pre/Task001/YuccaPlanner/case_1.npy'' \<and>
   (\<exists>w'. preprocess_train_subject ex_self ex_externals done_world ''case_1.nii.gz'' = Inr w' \<and>
         files w' = files done_world)"
proof -
  have paths:
    "arraypath ex_self ''case_1.nii.gz'' = ''/pre/Task001/YuccaPlanner/case_1.npy''"
    "picklepath ex_self ''case_1.nii.gz'' = ''/pre/Task001/YuccaPlanner/case_1.pkl''"
    by (simp_all add: arraypath_def picklepath_def subject_id_of_def path_join_def join2_def
          ex_self_def)
  have ex: "isfile (files done_world) (arraypath ex_self ''case_1.nii.gz'') \<and>
            isfile (files done_world) (picklepath ex_self ''case_1.nii.gz'')"
    unfolding paths by (simp add: isfile_def done_world_def)
  from train_subject_skips_existing_case [of done_world ex_self "''case_1.nii.gz''" ex_externals]
  show ?thesis using ex paths by blast
qed

subsection \<open>The store under reverse\_preprocessing\<close>

lemma for_each_preserves:
  assumes step: "\<And>i s s'. body i s = Inr s' \<Longrightarrow> R s s'"
      and refl: "\<And>s. R s s"
      and trans: "\<And>s t u. R s t \<Longrightarrow> R t u \<Longrightarrow> R s u"
  shows "for_each xs body s = Inr s' \<Longrightarrow> R s s'"
proof (induction xs arbitrary: s)
  case Nil
  then show ?case by (simp add: refl)
next
  case (Cons x xs)
  then obtain t where t: "body x s = Inr t" and rest: "for_each xs body t = Inr s'"
    by (auto simp: ebind_Inr_iff)
  from step [OF t] Cons.IH [OF rest] show ?case by (rule trans)
qed

lemma reverse_body_frame:
  assumes "reverse_body self ext images image_properties canvas sact pad b c h = Inr h'"
  shows "frame canvas h h'"
proof (cases "crop_to_nonzero (plans self)")
  case False
  with assms have "h' = h"
    by (auto simp: reverse_body_def ebind_Inr_iff)
  then show ?thesis by (simp add: frame_def)
next
  case True
  with assms obtain cv' where "h' = h[canvas := ArrObj cv']"
    by (auto simp: reverse_body_def ebind_Inr_iff)
  then show ?thesis by (simp add: frame_def)
qed

lemma reverse_loops_frame:
  assumes "reverse_loops self ext images image_properties canvas sact pad h1 = Inr h2"
  shows "frame canvas h1 h2"
proof -
  from assms obtain bs where
    loops: "for_each bs (\<lambda>b h. ebind (shape_range h images 1) (\<lambda>cs.
             for_each cs (reverse_body self ext images image_properties canvas sact pad b) h)) h1
           = Inr h2"
    by (auto simp: reverse_loops_def ebind_Inr_iff simp del: One_nat_def)
  show ?thesis
  proof (rule for_each_preserves [where R = "frame canvas", OF _ _ _ loops])
    fix b s s'
    assume "ebind (shape_range s images 1)
              (\<lambda>cs. for_each cs (reverse_body self ext images image_properties canvas sact pad b) s)
            = Inr s'"
    then obtain cs where
      "for_each cs (reverse_body self ext images image_properties canvas sact pad b) s = Inr s'"
      by (auto simp: ebind_Inr_iff)
    then show "frame canvas s s'"
      by (rule for_each_preserves [where R = "frame canvas", rotated 3])
         (auto simp: frame_def dest: reverse_body_frame)
  qed (auto simp: frame_def)
qed

text \<open>
  C10. \<^verbatim>\<open>reverse_preprocessing\<close> leaves its inputs as they were: when it returns, the
  canvas is at a reference that was not allocated before the call, the store has
  grown by that one object, and every object that existed before the call, the
  predictions array and the record among them, is unchanged.
\<close>

theorem reverse_preprocessing_frame:
  assumes "reverse_preprocessing self ext h images image_properties = Inr (r, h')"
  shows "r = length h \<and> length h' = Suc (length h) \<and> (\<forall>p < length h. h' ! p = h ! p)"
proof -
  from assms obtain z sact pad where
    loops: "reverse_loops self ext images image_properties (length h) sact pad (h @ [ArrObj z])
            = Inr h'"
    and r: "r = length h"
    by (auto simp: reverse_preprocessing_def Let_def alloc_def ebind_Inr_iff)
  from reverse_loops_frame [OF loops]
  have "length h' = Suc (length h)" and "\<forall>p. p \<noteq> length h \<longrightarrow> h' ! p = (h @ [ArrObj z]) ! p"
    by (simp_all add: frame_def)
  with r show ?thesis by (simp add: nth_append)
qed

theorem reverse_preprocessing_frame_witness:
  "\<exists>r h'. reverse_preprocessing ex_self ex_externals ex_heap 0 1 = Inr (r, h') \<and>
          r = 2 \<and> length h' = 3 \<and> h' ! 0 = ex_heap ! 0 \<and> h' ! 1 = ex_heap ! 1"
proof -
  have "\<not> isl (reverse_preprocessing ex_self ex_externals ex_heap 0 1)"
    by code_simp
  then obtain r h' where
    run: "reverse_preprocessing ex_self ex_externals ex_heap 0 1 = Inr (r, h')"
    by (cases "reverse_preprocessing ex_self ex_externals ex_heap 0 1") auto
  have len: "length ex_heap = 2"
    by (simp add: ex_heap_def)
  from reverse_preprocessing_frame [OF run] len
  have "r = 2" "length h' = 3" "h' ! 0 = ex_heap ! 0" "h' ! 1 = ex_heap ! 1"
    by simp_all
  with run show ?thesis by blast
qed

subsection \<open>Reversal when the plan does not crop\<close>

text \<open>
  C2 fails on the code. With \<^verbatim>\<open>crop_to_nonzero\<close> false the assignment into the canvas
  is never reached, because it stands inside \<^verbatim>\<open>if self.plans['crop_to_nonzero']\<close>:
  the loop bodies leave the store as it is and the canvas returned is the array of
  zeros that was allocated.
\<close>

lemma reverse_without_crop_is_zeros:
  assumes nocrop: "\<not> crop_to_nonzero (plans self)"
      and run: "reverse_preprocessing self ext h images image_properties = Inr (r, h')"
  shows "\<exists>us. h' = h @ [ArrObj (np_zeros (1 # length (classes (plans self)) # us))]"
proof -
  from run obtain us sact pad where
    loops: "reverse_loops self ext images image_properties (length h) sact pad
              (h @ [ArrObj (np_zeros (1 # length (classes (plans self)) # us))]) = Inr h'"
    by (auto simp: reverse_preprocessing_def Let_def alloc_def ebind_Inr_iff
             simp del: One_nat_def)
  let ?h1 = "h @ [ArrObj (np_zeros (1 # length (classes (plans self)) # us))]"
  from loops obtain bs where
    fe: "for_each bs (\<lambda>b s. ebind (shape_range s images 1) (\<lambda>cs.
           for_each cs (reverse_body self ext images image_properties (length h) sact pad b) s))
           ?h1 = Inr h'"
    by (auto simp: reverse_loops_def ebind_Inr_iff simp del: One_nat_def)
  have body: "h2 = h1"
    if "reverse_body self ext images image_properties cv sact pad b c h1 = Inr h2"
    for cv b c h1 h2
    using that nocrop by (auto simp: reverse_body_def ebind_Inr_iff)
  have inner: "h2 = h1"
    if "for_each cs (reverse_body self ext images image_properties cv sact pad b) h1 = Inr h2"
    for cs cv b h1 h2
    using that by (rule for_each_preserves [where R = "\<lambda>s t. t = s", rotated 3])
                  (auto dest: body)
  have "h' = ?h1"
    using fe by (rule for_each_preserves [where R = "\<lambda>s t. t = s", rotated 3])
                (auto simp: ebind_Inr_iff dest: inner)
  then show ?thesis by blast
qed

text \<open>
  At the concrete case: a prediction that is one everywhere, for a \<open>4 \<times> 3\<close> volume
  and two classes. Each item reverses to an array of ones of the uncropped shape,
  and the canvas returned has that shape and is zero everywhere.
\<close>

theorem reverse_without_crop_returns_zeros:
  "map_option shape
     (returned_canvas (reverse_preprocessing nocrop_self ex_externals nocrop_heap 0 1))
     = Some [1, 2, 4, 3] \<and>
   map_option (all_values 0)
     (returned_canvas (reverse_preprocessing nocrop_self ex_externals nocrop_heap 0 1))
     = Some True \<and>
   (case reverse_item nocrop_self ex_externals nocrop_properties [3, 4] [0, 0, 0, 0] (ones [3, 4])
    of Inl e \<Rightarrow> False | Inr a \<Rightarrow> shape a = [4, 3] \<and> all_values 1 a)"
  by code_simp

subsection \<open>Reversal of a batch\<close>

text \<open>
  The canvas has one slot for a batch item. A batch of two predictions for the
  record of the concrete case, under the plan that crops, ends in an IndexError
  instead of a canvas.
\<close>

theorem reverse_batch_of_two_fails:
  "isl (reverse_preprocessing ex_self ex_externals two_item_heap 0 1) \<and>
   projl (reverse_preprocessing ex_self ex_externals two_item_heap 0 1) = IndexError \<and>
   crop_to_nonzero (plans ex_self) \<and>
   map_option shape (returned_canvas (Inr (0, two_item_heap))) = Some [2, 2, 3, 4] \<and>
   \<not> isl (get_dict two_item_heap 1) \<and>
   padded_shape (projr (get_dict two_item_heap 1)) = Some [3, 4]"
  by code_simp

subsection \<open>Validation of a training case\<close>

lemma py_assert_Inr_iff [simp]: "py_assert b msg = Inr u \<longleftrightarrow> b"
  by (simp add: py_assert_def)

lemma py_assert_Inl_iff [simp]: "py_assert b msg = Inl e \<longleftrightarrow> \<not> b \<and> e = AssertionError msg"
  by (auto simp: py_assert_def)

lemma for_each_unit_Inr_iff:
  "for_each xs (\<lambda>x u. f x) () = Inr () \<longleftrightarrow> (\<forall>x\<in>set xs. f x = Inr ())"
  by (induction xs) (auto simp: ebind_Inr_iff)

lemma isclose_refl: "isclose x x"
  by (simp add: isclose_def)

lemma np_allclose_refl: "np_allclose xs xs = Inr True"
  by (simp add: np_allclose_def list_all2_same isclose_refl)

lemma check_registered_Inr_iff:
  "check_registered a b = Inr () \<longleftrightarrow>
     nib_shape a = nib_shape b \<and>
     np_allclose (get_nib_spacing a) (get_nib_spacing b) = Inr True \<and>
     get_nib_orientation a = get_nib_orientation b"
  by (auto simp: check_registered_def ebind_Inr_iff)

lemma unittests_Inr_iff:
  "unittests pl images seg = Inr () \<longleftrightarrow>
     images \<noteq> [] \<and> length (nib_shape (hd images)) = data_dimensions pl \<and>
     check_registered (hd images) seg = Inr () \<and>
     (1 < length images \<longrightarrow> (\<forall>im\<in>set images. check_registered (hd images) im = Inr ()))"
  by (auto simp: unittests_def ebind_Inr_iff for_each_unit_Inr_iff)

lemma unittests_sound:
  assumes ok: "unittests pl images seg = Inr ()"
  shows "images \<noteq> [] \<and>
         (\<forall>v\<in>set (seg # images). length (nib_shape v) = data_dimensions pl) \<and>
         (\<forall>im\<in>set images. nib_shape im = nib_shape seg) \<and>
         (\<forall>v\<in>set (seg # images).
            np_allclose (get_nib_spacing (hd images)) (get_nib_spacing v) = Inr True) \<and>
         (\<forall>v\<in>set (seg # images). get_nib_orientation v = get_nib_orientation (hd images))"
proof -
  from ok have ne: "images \<noteq> []"
    and dim: "length (nib_shape (hd images)) = data_dimensions pl"
    and sg: "check_registered (hd images) seg = Inr ()"
    by (simp_all add: unittests_Inr_iff)
  from ok have rest: "\<forall>im\<in>set images. check_registered (hd images) im = Inr ()"
    if "1 < length images"
    using that by (simp add: unittests_Inr_iff)
  have all: "check_registered (hd images) im = Inr ()" if "im \<in> set images" for im
  proof (cases "1 < length images")
    case True
    with rest that show ?thesis by blast
  next
    case False
    with ne that have "im = hd images"
      by (cases images) auto
    then show ?thesis
      by (simp add: check_registered_Inr_iff np_allclose_refl)
  qed
  have reg: "nib_shape (hd images) = nib_shape v \<and>
             np_allclose (get_nib_spacing (hd images)) (get_nib_spacing v) = Inr True \<and>
             get_nib_orientation (hd images) = get_nib_orientation v"
    if "v \<in> set (seg # images)" for v
  proof -
    from that sg all have "check_registered (hd images) v = Inr ()"
      by auto
    then show ?thesis
      by (simp only: check_registered_Inr_iff)
  qed
  have c2: "\<forall>v\<in>set (seg # images). length (nib_shape v) = data_dimensions pl"
  proof
    fix v assume "v \<in> set (seg # images)"
    from reg [OF this] dim show "length (nib_shape v) = data_dimensions pl"
      by simp
  qed
  have c3: "\<forall>im\<in>set images. nib_shape im = nib_shape seg"
  proof
    fix im assume "im \<in> set images"
    then have "nib_shape (hd images) = nib_shape im"
      using reg [of im] by simp
    moreover have "nib_shape (hd images) = nib_shape seg"
      using reg [of seg] by simp
    ultimately show "nib_shape im = nib_shape seg"
      by simp
  qed
  have c4: "\<forall>v\<in>set (seg # images).
              np_allclose (get_nib_spacing (hd images)) (get_nib_spacing v) = Inr True"
    using reg by blast
  have c5: "\<forall>v\<in>set (seg # images). get_nib_orientation v = get_nib_orientation (hd images)"
  proof
    fix v assume "v \<in> set (seg # images)"
    from reg [OF this] show "get_nib_orientation v = get_nib_orientation (hd images)"
      by simp
  qed
  from ne c2 c3 c4 c5 show ?thesis
    by (intro conjI)
qed

lemma unit_sum_cases: "(r :: error + unit) = Inr () \<or> (\<exists>e. r = Inl e)"
  by (cases r) auto

text \<open>
  C6. With validation enabled, a case that is not skipped and whose files load is
  rejected with the error of the failing assertion when no modality file matched,
  when a volume does not have the plan's number of dimensions, when a modality's
  shape is not the label's shape, when the spacing of a volume is not close (in the
  sense of \<^verbatim>\<open>np.allclose\<close>) to the spacing of the first modality, or when the
  orientation of a volume is not the orientation of the first modality.
\<close>

theorem validation_rejects_inconsistent_case:
  assumes enabled: "\<not> disable_unittests self"
      and fresh: "\<not> (isfile (files w) (arraypath self f) \<and> isfile (files w) (picklepath self f))"
      and imgs: "map_err (nib_load (files w)) (modality_paths self (subject_id_of f)) = Inr images"
      and sg: "nib_load (files w) (label_path self (subject_id_of f)) = Inr seg"
      and bad: "images = [] \<or>
                (\<exists>v\<in>set (seg # images). length (nib_shape v) \<noteq> data_dimensions (plans self)) \<or>
                (\<exists>im\<in>set images. nib_shape im \<noteq> nib_shape seg) \<or>
                (\<exists>v\<in>set (seg # images).
                   np_allclose (get_nib_spacing (hd images)) (get_nib_spacing v) \<noteq> Inr True) \<or>
                (\<exists>v\<in>set (seg # images).
                   get_nib_orientation v \<noteq> get_nib_orientation (hd images))"
  shows "\<exists>e. unittests (plans self) images seg = Inl e \<and>
             preprocess_train_subject self ext w f = Inl e"
proof -
  have "unittests (plans self) images seg \<noteq> Inr ()"
  proof
    assume "unittests (plans self) images seg = Inr ()"
    from unittests_sound [OF this] bad show False
      by blast
  qed
  with unit_sum_cases [of "unittests (plans self) images seg"]
  obtain e where e: "unittests (plans self) images seg = Inl e"
    by blast
  have "load_for_training self (files w) (subject_id_of f) = Inl e"
    by (simp add: load_for_training_def imgs sg enabled e)
  with fresh have "preprocess_train_subject self ext w f = Inl e"
    by (simp add: preprocess_train_subject_def Let_def)
  with e show ?thesis by blast
qed

lemma case_1_paths:
  "subject_id_of ''case_1.nii.gz'' = ''case_1''"
  "modality_paths ex_self ''case_1'' = [''/raw/Task001/imagesTr/case_1_000.nii.gz'']"
  "label_path ex_self ''case_1'' = ''/raw/Task001/labelsTr/case_1.nii.gz''"
  "arraypath ex_self ''case_1.nii.gz'' = ''/pre/Task001/YuccaPlanner/case_1.npy''"
  "picklepath ex_self ''case_1.nii.gz'' = ''/pre/Task001/YuccaPlanner/case_1.pkl''"
  by (simp_all add: subject_id_of_def modality_paths_def label_path_def arraypath_def
        picklepath_def startswith_def basename_def path_join_def join2_def ex_self_def)

lemma raw_world_loads:
  "map_err (nib_load (files (raw_world l))) [''/raw/Task001/imagesTr/case_1_000.nii.gz'']
     = Inr [ex_volume]"
  "nib_load (files (raw_world l)) ''/raw/Task001/labelsTr/case_1.nii.gz'' = Inr l"
  "\<not> isfile (files (raw_world l)) ''/pre/Task001/YuccaPlanner/case_1.npy''"
  by (simp_all add: raw_world_def raw_files_def nib_load_def isfile_def)

theorem validation_rejects_inconsistent_case_witness:
  "\<not> disable_unittests ex_self \<and>
   get_nib_spacing ex_volume = [1, 1] \<and> get_nib_spacing stretched_label = [1, 2] \<and>
   preprocess_train_subject ex_self ex_externals (raw_world stretched_label) ''case_1.nii.gz''
     = Inl (AssertionError ''Spacings do not match'')"
proof -
  have enabled: "\<not> disable_unittests ex_self"
    by (simp add: ex_self_def initialize_properties_def init_def)
  have sp: "get_nib_spacing ex_volume = [1, 1]" "get_nib_spacing stretched_label = [1, 2]"
    by (simp_all add: get_nib_spacing_def ex_volume_def stretched_label_def ex_label_def)
  have far: "np_allclose (get_nib_spacing (hd [ex_volume])) (get_nib_spacing stretched_label)
               \<noteq> Inr True"
    by (simp add: sp np_allclose_def isclose_def)
  have test: "unittests (plans ex_self) [ex_volume] stretched_label
                = Inl (AssertionError ''Spacings do not match'')"
    by (simp add: unittests_def check_registered_def np_allclose_def isclose_def
          nib_shape_def get_nib_spacing_def get_nib_orientation_def
          ex_volume_def stretched_label_def ex_label_def digits_def
          ex_self_def initialize_properties_def init_def ex_plans_def py_assert_def)
  have fresh: "\<not> (isfile (files (raw_world stretched_label)) (arraypath ex_self ''case_1.nii.gz'') \<and>
                     isfile (files (raw_world stretched_label)) (picklepath ex_self ''case_1.nii.gz''))"
    by (simp add: case_1_paths raw_world_loads)
  have imgs: "map_err (nib_load (files (raw_world stretched_label)))
                (modality_paths ex_self (subject_id_of ''case_1.nii.gz'')) = Inr [ex_volume]"
    by (simp add: case_1_paths raw_world_def raw_files_def nib_load_def)
  have sg: "nib_load (files (raw_world stretched_label))
              (label_path ex_self (subject_id_of ''case_1.nii.gz'')) = Inr stretched_label"
    by (simp add: case_1_paths raw_world_loads)
  have bad: "[ex_volume] = [] \<or>
       (\<exists>v\<in>set (stretched_label # [ex_volume]).
          length (nib_shape v) \<noteq> data_dimensions (plans ex_self)) \<or>
       (\<exists>im\<in>set [ex_volume]. nib_shape im \<noteq> nib_shape stretched_label) \<or>
       (\<exists>v\<in>set (stretched_label # [ex_volume]).
          np_allclose (get_nib_spacing (hd [ex_volume])) (get_nib_spacing v) \<noteq> Inr True) \<or>
       (\<exists>v\<in>set (stretched_label # [ex_volume]).
          get_nib_orientation v \<noteq> get_nib_orientation (hd [ex_volume]))"
    using far by simp
  from validation_rejects_inconsistent_case [OF enabled fresh imgs sg bad, of ex_externals]
  have "\<exists>e. unittests (plans ex_self) [ex_volume] stretched_label = Inl e \<and>
            preprocess_train_subject ex_self ex_externals (raw_world stretched_label)
              ''case_1.nii.gz'' = Inl e" .
  with test enabled sp show ?thesis
    by auto
qed

subsection \<open>The label values\<close>

lemma in_bounds_Nil [simp]: "in_bounds [] idx \<longleftrightarrow> idx = []"
  by (simp add: in_bounds_def)










subsection \<open>What the stages of the two preprocessors return\<close>

lemma getkey_Inr_iff [simp]: "getkey k v = Inr x \<longleftrightarrow> v = Some x"
  by (cases v) (simp_all add: getkey_def)

lemma map_err_length: "map_err f xs = Inr ys \<Longrightarrow> length ys = length xs"
  by (induction xs arbitrary: ys) (auto simp: ebind_Inr_iff)

lemma reorient_for_training_result:
  assumes "reorient_for_training self ext images seg = Inr (arrays, sg, oo, fd)"
  shows "if header_coded (hd images)
         then target_coordinate_system (plans self) = Some fd \<and>
              oo = get_nib_orientation (hd images) \<and>
              arrays = map (\<lambda>im. nib_to_np (reorient_nib_image ext im oo fd)) images \<and>
              sg = nib_to_np (reorient_nib_image ext seg oo fd)
         else arrays = map nib_to_np images \<and> sg = nib_to_np seg \<and>
              oo = ''INVALID'' \<and> fd = ''INVALID''"
  using assms
  by (auto simp: reorient_for_training_def header_coded_def Let_def ebind_Inr_iff
           split: if_splits)

lemma reorient_for_inference_result:
  assumes "reorient_for_inference self ext images props out = Inr (images1, props2, out1)"
  shows "if inference_gate (plans self) (hd images)
         then (\<exists>fd. target_coordinate_system (plans self) = Some fd \<and>
                images1 = map (\<lambda>im. reorient_nib_image ext im
                                       (get_nib_orientation (hd images)) fd) images \<and>
                props2 = props\<lparr>reoriented := Some True,
                               original_orientation := Some (get_nib_orientation (hd images)),
                               new_orientation := Some (get_nib_orientation (hd images1))\<rparr>)
         else images1 = images \<and> props2 = props\<lparr>reoriented := Some False\<rparr>"
  using assms
  by (auto simp: reorient_for_inference_def inference_gate_def Let_def ebind_Inr_iff
           split: if_splits)

lemma load_for_inference_result:
  assumes "load_for_inference self ext fs paths = Inr (images1, props2, out1)"
  shows "\<exists>images. map_err (nib_load fs) paths = Inr images \<and> images \<noteq> [] \<and>
           reorient_for_inference self ext images
             (empty_properties
                \<lparr>original_spacing := Some (get_nib_spacing (hd images)),
                 original_shape := Some (nib_shape (hd images)),
                 qform := Some (img_qform (hd images)),
                 sform := Some (img_sform (hd images))\<rparr>) [] = Inr (images1, props2, out1)"
  using assms
  by (auto simp: load_for_inference_def ebind_Inr_iff split: if_splits)

lemma ebind_prod3_Inr:
  "ebind m (\<lambda>(a, b, c). f a b c) = Inr y \<Longrightarrow> \<exists>a b c. m = Inr (a, b, c) \<and> f a b c = Inr y"
  by (cases m) auto

lemma ebind_prod2_Inr:
  "ebind m (\<lambda>(a, b). f a b) = Inr y \<Longrightarrow> \<exists>a b. m = Inr (a, b) \<and> f a b = Inr y"
  by (cases m) auto

lemma preprocess_case_for_inference_result:
  assumes "preprocess_case_for_inference self0 ext fs paths patch = Inr (s', tensor, props, out)"
  shows "\<exists>images1 props2 out1 arrays1 props6.
           s' = initialize_properties self0 \<and>
           load_for_inference s' ext fs paths = Inr (images1, props2, out1) \<and>
           crop_for_inference s' ext images1 props2 = (arrays1, props6) \<and>
           resample_pad_stack s' ext arrays1 props6 patch out1 = Inr (tensor, props, out)"
proof -
  let ?s = "initialize_properties self0"
  from assms [unfolded preprocess_case_for_inference_def Let_def, THEN ebind_prod3_Inr]
  obtain images1 props2 out1 where
    l: "load_for_inference ?s ext fs paths = Inr (images1, props2, out1)" and
    r: "(case crop_for_inference ?s ext images1 props2 of
           (arrays1, props6) \<Rightarrow>
             ebind (resample_pad_stack ?s ext arrays1 props6 patch out1)
               (\<lambda>(tensor, props9, out2). Inr (?s, tensor, props9, out2)))
        = Inr (s', tensor, props, out)"
    by blast
  obtain arrays1 props6 where c: "crop_for_inference ?s ext images1 props2 = (arrays1, props6)"
    by (cases "crop_for_inference ?s ext images1 props2")
  from r [unfolded c, simplified, THEN ebind_prod3_Inr]
  have "resample_pad_stack ?s ext arrays1 props6 patch out1 = Inr (tensor, props, out)"
    and "s' = ?s"
    by auto
  with l c show ?thesis by blast
qed


lemma try_resize_result:
  assumes "try_resize ext ord msg a t out = Inr (r, out')"
  shows "resize ext ord a t = Inr r \<or> (resize ext ord a t = Inl OverflowError \<and> r = a)"
  using assms by (auto simp: try_resize_def split: sum.splits error.splits)

lemma resize_images_result:
  "resize_images ext t as out = Inr (rs, out') \<Longrightarrow>
     list_all2 (\<lambda>a r. resize ext 3 a t = Inr r \<or> (resize ext 3 a t = Inl OverflowError \<and> r = a))
       as rs"
proof (induction as arbitrary: out rs out')
  case Nil
  then show ?case by simp
next
  case (Cons a as)
  from Cons.prems [simplified, THEN ebind_prod2_Inr]
  obtain r out1 where
    h: "try_resize ext 3 ''Unexpected values in either shape or image for resize'' a t out
          = Inr (r, out1)" and
    tl: "ebind (resize_images ext t as out1) (\<lambda>(rs, out2). Inr (r # rs, out2)) = Inr (rs, out')"
    by blast
  from tl [THEN ebind_prod2_Inr] obtain rs' out2 where
    t2: "resize_images ext t as out1 = Inr (rs', out2)" and rs: "rs = r # rs'"
    by auto
  from try_resize_result [OF h] Cons.IH [OF t2] rs show ?case
    by simp
qed

lemma pad_images_result:
  "pad_images ext patch as p0 = Inr (as', p) \<Longrightarrow>
     length as' = length as \<and> (as \<noteq> [] \<longrightarrow> p \<noteq> None)"
proof (induction as arbitrary: p0 as')
  case Nil
  then show ?case by simp
next
  case (Cons a as)
  from Cons.prems [simplified, THEN ebind_prod2_Inr]
  obtain a1 pad1 where
    tl: "ebind (pad_images ext patch as (Some pad1)) (\<lambda>(as1, pad2). Inr (a1 # as1, pad2))
           = Inr (as', p)"
    by blast
  from tl [THEN ebind_prod2_Inr] obtain as1 where
    t2: "pad_images ext patch as (Some pad1) = Inr (as1, p)" and as': "as' = a1 # as1"
    by auto
  have "p \<noteq> None"
  proof (cases as)
    case Nil
    with t2 show ?thesis by auto
  next
    case Cons
    with Cons.IH [OF t2] show ?thesis by simp
  qed
  with Cons.IH [OF t2] as' show ?case by simp
qed

lemma np_stack_shape:
  "np_stack as = Inr st \<Longrightarrow> shape st = length as # shape (hd as)"
  by (auto simp: np_stack_def split: if_splits)

lemma resample_count:
  assumes "resample_and_normalize_case self ext images seg norm_op tr sp tgt out
             = Inr (images2, seg2, out2)"
  shows "length images2 = length images"
proof -
  from assms obtain ints images1 tshape outa outb where
    m: "map_err (\<lambda>i. normalize_and_transpose ext norm_op ints (elems tr) i (images ! i))
          [0..<length images] = Inr images1" and
    r: "resize_images ext tshape images1 outa = Inr (images2, outb)"
    unfolding resample_and_normalize_case_def Let_def
    by (auto simp: ebind_Inr_iff split: option.splits if_splits prod.splits)
  from map_err_length [OF m] list_all2_lengthD [OF resize_images_result [OF r]]
  show ?thesis by simp
qed

lemma resample_pad_stack_result:
  assumes "resample_pad_stack self ext arrays1 props6 patch out1 = Inr (tensor, props9, out2)"
  shows "\<exists>rts spatial pad.
           props9 = props6\<lparr>resampled_transposed_shape := Some rts,
                          padded_shape := Some spatial, padding := Some pad\<rparr> \<and>
           shape tensor = 1 # length arrays1 # spatial \<and>
           original_spacing props6 \<noteq> None"
proof -
  from assms obtain sp arrays2 sg outa arrays3 lastp pad stacked where
    sp: "original_spacing props6 = Some sp" and
    rs: "resample_and_normalize_case self ext arrays1 None (normalization_scheme (plans self))
           (self_transpose_forward self) sp (self_target_spacing self) out1
         = Inr (arrays2, sg, outa)" and
    pd: "pad_images ext patch arrays2 None = Inr (arrays3, lastp)" and
    st: "np_stack arrays3 = Inr stacked" and
    res: "tensor = newaxis stacked"
         "props9 = props6\<lparr>resampled_transposed_shape := Some (shape (hd arrays2)),
                         padded_shape := Some (shape (hd arrays3)), padding := Some pad\<rparr>"
    unfolding resample_pad_stack_def
    by (auto simp: ebind_Inr_iff split: if_splits prod.splits)
  from resample_count [OF rs] pad_images_result [OF pd]
  have "length arrays3 = length arrays1" by simp
  with np_stack_shape [OF st] res sp show ?thesis
    by (auto simp: newaxis_def)
qed


lemma crop_for_inference_result:
  assumes "crop_for_inference self ext images1 props2 = (arrays1, props6)"
  shows "length arrays1 = length images1 \<and>
         (\<exists>us cs box.
            props6 = (if crop_to_nonzero (plans self)
                      then props2\<lparr>affine := Some (img_affine (hd images1)),
                                   uncropped_shape := Some us, nonzero_box := Some box,
                                   cropped_shape := Some cs\<rparr>
                      else props2\<lparr>affine := Some (img_affine (hd images1)),
                                   uncropped_shape := Some us, cropped_shape := Some cs\<rparr>))"
  using assms by (auto simp: crop_for_inference_def Let_def split: if_splits)

lemma plans_initialize_properties [simp]: "plans (initialize_properties self) = plans self"
  by (simp add: initialize_properties_def)

lemma inference_record:
  assumes run: "preprocess_case_for_inference self ext fs paths patch
                  = Inr (s', tensor, props, out)"
  shows "\<exists>images spatial os osh q s af us cs rts pad.
           map_err (nib_load fs) paths = Inr images \<and> images \<noteq> [] \<and>
           shape tensor = 1 # length paths # spatial \<and>
           original_spacing props = Some os \<and> original_shape props = Some osh \<and>
           qform props = Some q \<and> sform props = Some s \<and> affine props = Some af \<and>
           uncropped_shape props = Some us \<and> cropped_shape props = Some cs \<and>
           resampled_transposed_shape props = Some rts \<and> padded_shape props = Some spatial \<and>
           padding props = Some pad \<and>
           reoriented props = Some (inference_gate (plans self) (hd images)) \<and>
           (nonzero_box props \<noteq> None \<longleftrightarrow> crop_to_nonzero (plans self)) \<and>
           (original_orientation props \<noteq> None \<longleftrightarrow> inference_gate (plans self) (hd images)) \<and>
           (new_orientation props \<noteq> None \<longleftrightarrow> inference_gate (plans self) (hd images))"
proof -
  from preprocess_case_for_inference_result [OF run]
  obtain images1 props2 out1 arrays1 props6 where
    s': "s' = initialize_properties self" and
    l: "load_for_inference s' ext fs paths = Inr (images1, props2, out1)" and
    c: "crop_for_inference s' ext images1 props2 = (arrays1, props6)" and
    r: "resample_pad_stack s' ext arrays1 props6 patch out1 = Inr (tensor, props, out)"
    by blast
  have pl: "plans s' = plans self"
    by (simp add: s')
  from load_for_inference_result [OF l] obtain images where
    m: "map_err (nib_load fs) paths = Inr images" and ne: "images \<noteq> []" and
    o: "reorient_for_inference s' ext images
          (empty_properties
             \<lparr>original_spacing := Some (get_nib_spacing (hd images)),
              original_shape := Some (nib_shape (hd images)),
              qform := Some (img_qform (hd images)),
              sform := Some (img_sform (hd images))\<rparr>) [] = Inr (images1, props2, out1)"
    by blast
  let ?g = "inference_gate (plans self) (hd images)"
  from reorient_for_inference_result [OF o]
  have len1: "length images1 = length images" and
    p2: "original_spacing props2 = Some (get_nib_spacing (hd images))"
        "original_shape props2 = Some (nib_shape (hd images))"
        "qform props2 = Some (img_qform (hd images))"
        "sform props2 = Some (img_sform (hd images))"
        "reoriented props2 = Some ?g"
        "nonzero_box props2 = None"
        "original_orientation props2 \<noteq> None \<longleftrightarrow> ?g"
        "new_orientation props2 \<noteq> None \<longleftrightarrow> ?g"
    by (auto simp: pl empty_properties_def split: if_splits)
  from crop_for_inference_result [OF c] obtain us cs box where
    len2: "length arrays1 = length images1" and
    p6: "props6 = (if crop_to_nonzero (plans self)
                   then props2\<lparr>affine := Some (img_affine (hd images1)),
                                uncropped_shape := Some us, nonzero_box := Some box,
                                cropped_shape := Some cs\<rparr>
                   else props2\<lparr>affine := Some (img_affine (hd images1)),
                                uncropped_shape := Some us, cropped_shape := Some cs\<rparr>)"
    by (auto simp: pl)
  from resample_pad_stack_result [OF r] obtain rts spatial pad where
    p9: "props = props6\<lparr>resampled_transposed_shape := Some rts,
                        padded_shape := Some spatial, padding := Some pad\<rparr>" and
    sh: "shape tensor = 1 # length arrays1 # spatial"
    by blast
  from map_err_length [OF m] len1 len2 sh
  have sh': "shape tensor = 1 # length paths # spatial"
    by simp
  show ?thesis
    using m ne sh' p2 by (auto simp: p9 p6)
qed

lemma ebind_prod4_Inr:
  "ebind m (\<lambda>(a, b, c, d). f a b c d) = Inr y
     \<Longrightarrow> \<exists>a b c d. m = Inr (a, b, c, d) \<and> f a b c d = Inr y"
  by (cases m) auto

lemma load_for_training_result:
  assumes "load_for_training self fs sid = Inr (paths, segpath, images, seg)"
  shows "map_err (nib_load fs) (modality_paths self sid) = Inr images \<and>
         nib_load fs (label_path self sid) = Inr seg \<and>
         paths = modality_paths self sid \<and> segpath = label_path self sid \<and>
         (\<not> disable_unittests self \<longrightarrow> unittests (plans self) images seg = Inr ())"
  using assms
  by (auto simp: load_for_training_def ebind_Inr_iff split: if_splits)

lemma resample_and_describe_result:
  assumes "resample_and_describe self ext paths segpath sp osz tgt oo fd arrays1 sg1 ce out1
             = Inr (stacked, props, out2)"
  shows "\<exists>arrays2 sg2.
           resample_and_normalize_case self ext arrays1 (Some sg1)
             (normalization_scheme (plans self)) (self_transpose_forward self) sp tgt out1
             = Inr (arrays2, sg2, out2) \<and>
           np_stack (arrays2 @ (case sg2 of None \<Rightarrow> [] | Some s \<Rightarrow> [s])) = Inr stacked \<and>
           props_original_orientation props = oo \<and> new_direction props = fd \<and>
           props_original_spacing props = sp \<and> original_size props = osz \<and>
           props_crop_to_nonzero props = ce \<and>
           new_size props = tl (shape stacked) \<and>
           take_from tgt (self_transpose_forward self) = Inr (new_spacing props)"
proof -
  from assms [unfolded resample_and_describe_def, THEN ebind_prod3_Inr]
  obtain arrays2 sg2 outa where
    r: "resample_and_normalize_case self ext arrays1 (Some sg1)
          (normalization_scheme (plans self)) (self_transpose_forward self) sp tgt out1
        = Inr (arrays2, sg2, outa)" and
    rest: "ebind (np_stack (arrays2 @ (case sg2 of None \<Rightarrow> [] | Some s \<Rightarrow> [s]))) (\<lambda>stacked.
           ebind (take_from tgt (self_transpose_forward self)) (\<lambda>new_sp.
           case foreground_statistics ext stacked tgt of (locs, n, sizes) \<Rightarrow>
           Inr (stacked,
                \<lparr>image_files = paths, segmentation_file = segpath,
                 props_crop_to_nonzero = ce,
                 props_original_spacing = sp, original_size = osz,
                 props_original_orientation = oo,
                 new_spacing = new_sp, new_size = shape (channel stacked 0),
                 new_direction = fd,
                 foreground_locations = locs, n_cc = n, size_cc = sizes\<rparr>,
                outa))) = Inr (stacked, props, out2)"
    by blast
  from rest obtain st new_sp where
    st: "np_stack (arrays2 @ (case sg2 of None \<Rightarrow> [] | Some s \<Rightarrow> [s])) = Inr st" and
    tk: "take_from tgt (self_transpose_forward self) = Inr new_sp" and
    fin: "(case foreground_statistics ext st tgt of (locs, n, sizes) \<Rightarrow>
           Inr (st,
                \<lparr>image_files = paths, segmentation_file = segpath,
                 props_crop_to_nonzero = ce,
                 props_original_spacing = sp, original_size = osz,
                 props_original_orientation = oo,
                 new_spacing = new_sp, new_size = shape (channel st 0),
                 new_direction = fd,
                 foreground_locations = locs, n_cc = n, size_cc = sizes\<rparr>,
                outa)) = (Inr (stacked, props, out2) :: error + ndarray \<times> train_properties \<times> string list)"
    by (auto simp: ebind_Inr_iff)
  obtain locs n sizes where fs: "foreground_statistics ext st tgt = (locs, n, sizes)"
    by (cases "foreground_statistics ext st tgt")
  from fin [unfolded fs] have
    "stacked = st" "out2 = outa"
    "props = \<lparr>image_files = paths, segmentation_file = segpath,
                 props_crop_to_nonzero = ce,
                 props_original_spacing = sp, original_size = osz,
                 props_original_orientation = oo,
                 new_spacing = new_sp, new_size = shape (channel st 0),
                 new_direction = fd,
                 foreground_locations = locs, n_cc = n, size_cc = sizes\<rparr>"
    by auto
  with r st tk show ?thesis
    by (simp add: channel_def)
qed

lemma transform_for_training_result:
  assumes "transform_for_training self ext paths segpath images seg out1
             = Inr (stacked, props, out2)"
  shows "images \<noteq> [] \<and>
         (\<exists>tgt arrays sg oo fd arrays1 sg1 ce.
            select_target_spacing self (get_nib_spacing (hd images)) = Inr tgt \<and>
            reorient_for_training self ext images seg = Inr (arrays, sg, oo, fd) \<and>
            labels_expected (classes (plans self)) sg \<and>
            crop_for_training self ext arrays sg = (arrays1, sg1, ce) \<and>
            resample_and_describe self ext paths segpath
              (get_nib_spacing (hd images)) (nib_shape (hd images)) tgt
              oo fd arrays1 sg1 ce out1 = Inr (stacked, props, out2))"
proof -
  from assms have ne: "images \<noteq> []"
    by (auto simp: transform_for_training_def split: if_splits)
  with assms [unfolded transform_for_training_def] obtain tgt where
    tgt: "select_target_spacing self (get_nib_spacing (hd images)) = Inr tgt" and
    "ebind (reorient_for_training self ext images seg)
          (\<lambda>(arrays, sg, orig_orientation, final_direction).
        ebind (py_assert (labels_expected (classes (plans self)) sg)
                 ''Unexpected labels found'') (\<lambda>_.
        case crop_for_training self ext arrays sg of (arrays1, sg1, crop_entry) \<Rightarrow>
        resample_and_describe self ext paths segpath
          (get_nib_spacing (hd images)) (nib_shape (hd images)) tgt
          orig_orientation final_direction arrays1 sg1 crop_entry out1))
     = Inr (stacked, props, out2)"
    by (auto simp: ebind_Inr_iff)
  from this(2) [THEN ebind_prod4_Inr] obtain arrays sg oo fd where
    reo: "reorient_for_training self ext images seg = Inr (arrays, sg, oo, fd)" and
    rest: "ebind (py_assert (labels_expected (classes (plans self)) sg)
                 ''Unexpected labels found'') (\<lambda>_.
        case crop_for_training self ext arrays sg of (arrays1, sg1, crop_entry) \<Rightarrow>
        resample_and_describe self ext paths segpath
          (get_nib_spacing (hd images)) (nib_shape (hd images)) tgt
          oo fd arrays1 sg1 crop_entry out1) = Inr (stacked, props, out2)"
    by blast
  obtain arrays1 sg1 ce where c: "crop_for_training self ext arrays sg = (arrays1, sg1, ce)"
    by (cases "crop_for_training self ext arrays sg")
  from rest have "labels_expected (classes (plans self)) sg" and
    "resample_and_describe self ext paths segpath
          (get_nib_spacing (hd images)) (nib_shape (hd images)) tgt
          oo fd arrays1 sg1 ce out1 = Inr (stacked, props, out2)"
    by (auto simp: ebind_Inr_iff c)
  with ne tgt reo c show ?thesis by blast
qed

lemma preprocess_train_subject_result:
  assumes run: "preprocess_train_subject self ext w f = Inr w1"
      and fresh: "\<not> (isfile (files w) (arraypath self f) \<and> isfile (files w) (picklepath self f))"
  shows "\<exists>paths segpath images seg stacked props out1 out2.
           load_for_training self (files w) (subject_id_of f)
             = Inr (paths, segpath, images, seg) \<and>
           transform_for_training self ext paths segpath images seg out1
             = Inr (stacked, props, out2) \<and>
           files w1 = (files w)(arraypath self f \<mapsto> NpyFile stacked,
                                picklepath self f \<mapsto> PickleFile props)"
proof -
  let ?out1 = "stdout w @ [''Preprocessing: '' @ subject_id_of f]"
  from run fresh have
    "ebind (load_for_training self (files w) (subject_id_of f))
       (\<lambda>(paths, segpath, images, seg).
        ebind (transform_for_training self ext paths segpath images seg ?out1)
          (\<lambda>(stacked, image_props, out2).
        Inr \<lparr>files = (files w)(arraypath self f \<mapsto> NpyFile stacked,
                               picklepath self f \<mapsto> PickleFile image_props),
             stdout = out2 @ [''Saving '' @ subject_id_of f @ '' in '' @ arraypath self f]\<rparr>))
     = Inr w1"
    by (simp add: preprocess_train_subject_def Let_def)
  from this [THEN ebind_prod4_Inr] obtain paths segpath images seg where
    l: "load_for_training self (files w) (subject_id_of f) = Inr (paths, segpath, images, seg)"
    and rest: "ebind (transform_for_training self ext paths segpath images seg ?out1)
          (\<lambda>(stacked, image_props, out2).
        Inr \<lparr>files = (files w)(arraypath self f \<mapsto> NpyFile stacked,
                               picklepath self f \<mapsto> PickleFile image_props),
             stdout = out2 @ [''Saving '' @ subject_id_of f @ '' in '' @ arraypath self f]\<rparr>)
        = Inr w1"
    by blast
  from rest [THEN ebind_prod3_Inr] obtain stacked props out2 where
    t: "transform_for_training self ext paths segpath images seg ?out1
          = Inr (stacked, props, out2)" and
    w1: "w1 = \<lparr>files = (files w)(arraypath self f \<mapsto> NpyFile stacked,
                               picklepath self f \<mapsto> PickleFile props),
             stdout = out2 @ [''Saving '' @ subject_id_of f @ '' in '' @ arraypath self f]\<rparr>"
    by auto
  from l t w1 show ?thesis by auto
qed

subsection \<open>The keys that reversal reads\<close>

lemma no_key_error_simps [simp]:
  "no_key_error (Inr x)"
  "no_key_error (Inl e) \<longleftrightarrow> (\<forall>k. e \<noteq> KeyError k)"
  by (simp_all add: no_key_error_def)

lemma no_key_error_ebind:
  "no_key_error m \<Longrightarrow> (\<And>x. m = Inr x \<Longrightarrow> no_key_error (f x)) \<Longrightarrow> no_key_error (ebind m f)"
  by (cases m) simp_all

lemma no_key_error_basic [simp]:
  "no_key_error (py_assert ok msg)"
  "no_key_error (getkey k (Some v))"
  "no_key_error (np_take xs js)"
  "no_key_error (np_transpose a axes)"
  "no_key_error (getitem2 a i j)"
  "no_key_error (getslice a sl)"
  "no_key_error (bbox_slices bbox)"
  "no_key_error (setitem_bc_slices cv i j sl img)"
  "no_key_error (get_array h p)"
  "no_key_error (get_dict h p)"
  "no_key_error (shape_range h p n)"
  by (auto simp: py_assert_def getkey_def np_take_def np_transpose_def getitem2_def
        getslice_def bbox_slices_def setitem_bc_slices_def get_array_def get_dict_def
        shape_range_def
        intro!: no_key_error_ebind split: list.splits obj.splits pyseq.splits)

lemma no_key_error_strip_padding [simp]: "no_key_error (strip_padding img pad)"
  by (simp add: strip_padding_def Let_def)

lemma no_key_error_reverse_item:
  assumes "\<And>a s. no_key_error (resize ext 3 a s)"
      and "padded_shape props \<noteq> None" "resampled_transposed_shape props \<noteq> None"
          "cropped_shape props \<noteq> None"
  shows "no_key_error (reverse_item self ext props sact pad img0)"
  using assms(2-4) unfolding reverse_item_def
  by (auto intro!: no_key_error_ebind assms(1))

lemma no_key_error_reverse_body:
  assumes "\<And>a s. no_key_error (resize ext 3 a s)"
      and "get_dict h p = Inr props"
      and "padded_shape props \<noteq> None" "resampled_transposed_shape props \<noteq> None"
          "cropped_shape props \<noteq> None"
      and "crop_to_nonzero (plans self) \<longrightarrow> nonzero_box props \<noteq> None"
  shows "no_key_error (reverse_body self ext images p canvas sact pad b c h)"
  using assms(2-) unfolding reverse_body_def
  by (auto intro!: no_key_error_ebind no_key_error_reverse_item assms(1))

lemma for_each_invariant:
  assumes "\<And>x s s'. I s \<Longrightarrow> body x s = Inr s' \<Longrightarrow> I s'"
  shows "I s \<Longrightarrow> for_each xs body s = Inr s' \<Longrightarrow> I s'"
proof (induction xs arbitrary: s)
  case Nil
  then show ?case by simp
next
  case (Cons x xs)
  from Cons.prems(2) obtain t where t: "body x s = Inr t" and r: "for_each xs body t = Inr s'"
    by (auto simp: ebind_Inr_iff)
  from assms [OF Cons.prems(1) t] Cons.IH r show ?case by blast
qed

lemma for_each_no_key_error:
  assumes "\<And>x s. I s \<Longrightarrow> no_key_error (body x s)"
      and "\<And>x s s'. I s \<Longrightarrow> body x s = Inr s' \<Longrightarrow> I s'"
  shows "I s \<Longrightarrow> no_key_error (for_each xs body s)"
proof (induction xs arbitrary: s)
  case Nil
  then show ?case by simp
next
  case (Cons x xs)
  show ?case
    unfolding for_each.simps
  proof (rule no_key_error_ebind)
    from Cons.prems show "no_key_error (body x s)" by (rule assms(1))
  next
    fix t assume "body x s = Inr t"
    with Cons.prems have "I t" by (rule assms(2))
    then show "no_key_error (for_each xs body t)" by (rule Cons.IH)
  qed
qed

lemma reverse_body_keeps_dict:
  assumes "reverse_body self ext images p canvas sact pad b c h = Inr h'"
      and "get_dict h p = Inr props" and "p \<noteq> canvas"
  shows "get_dict h' p = Inr props"
  using reverse_body_frame [OF assms(1)] assms(2,3)
  by (auto simp: frame_def get_dict_def split: if_splits)

lemma no_key_error_reverse_loops:
  assumes rs: "\<And>a s. no_key_error (resize ext 3 a s)"
      and d: "get_dict h1 p = Inr props" and neq: "p \<noteq> canvas"
      and f: "padded_shape props \<noteq> None" "resampled_transposed_shape props \<noteq> None"
             "cropped_shape props \<noteq> None"
             "crop_to_nonzero (plans self) \<longrightarrow> nonzero_box props \<noteq> None"
  shows "no_key_error (reverse_loops self ext images p canvas sact pad h1)"
proof -
  let ?I = "\<lambda>h. get_dict h p = Inr props"
  have body_nk: "no_key_error (reverse_body self ext images p canvas sact pad b c h)"
    if "?I h" for b c h
    using rs that f by (rule no_key_error_reverse_body)
  have body_inv: "?I h'"
    if "?I h" "reverse_body self ext images p canvas sact pad b c h = Inr h'" for b c h h'
    using that(2,1) neq by (rule reverse_body_keeps_dict)
  have inner_nk: "no_key_error (for_each cs (reverse_body self ext images p canvas sact pad b) h)"
    if "?I h" for cs b h
  proof (rule for_each_no_key_error [where I = ?I])
    show "?I h" by fact
  qed (auto intro: body_nk body_inv)
  have inner_inv: "?I h'"
    if "?I h" "for_each cs (reverse_body self ext images p canvas sact pad b) h = Inr h'"
    for cs b h h'
  proof (rule for_each_invariant [where I = ?I])
    show "?I h" by fact
    show "for_each cs (reverse_body self ext images p canvas sact pad b) h = Inr h'" by fact
  qed (auto intro: body_inv)
  show ?thesis
    unfolding reverse_loops_def
  proof (rule no_key_error_ebind)
    show "no_key_error (shape_range h1 images 0)" by simp
  next
    fix bs
    show "no_key_error
            (for_each bs (\<lambda>b h. ebind (shape_range h images 1)
               (\<lambda>cs. for_each cs (reverse_body self ext images p canvas sact pad b) h)) h1)"
    proof (rule for_each_no_key_error [where I = ?I])
      show "?I h1" by fact
    next
      fix b h assume "?I h"
      then show "no_key_error (ebind (shape_range h images 1)
             (\<lambda>cs. for_each cs (reverse_body self ext images p canvas sact pad b) h))"
        by (auto intro!: no_key_error_ebind inner_nk)
    next
      fix b h h'
      assume "?I h" and "ebind (shape_range h images 1)
             (\<lambda>cs. for_each cs (reverse_body self ext images p canvas sact pad b) h) = Inr h'"
      then show "?I h'"
        by (auto simp: ebind_Inr_iff dest: inner_inv)
    qed
  qed
qed

lemma no_key_error_reverse_preprocessing:
  assumes rs: "\<And>a s. no_key_error (resize ext 3 a s)"
      and d: "get_dict h p = Inr props"
      and f: "original_shape props \<noteq> None" "uncropped_shape props \<noteq> None"
             "padding props \<noteq> None"
             "padded_shape props \<noteq> None" "resampled_transposed_shape props \<noteq> None"
             "cropped_shape props \<noteq> None"
             "crop_to_nonzero (plans self) \<longrightarrow> nonzero_box props \<noteq> None"
  shows "no_key_error (reverse_preprocessing self ext h images p)"
proof -
  from d have lt: "p < length h"
    by (auto simp: get_dict_def split: if_splits)
  then have d1: "get_dict (h @ [x]) p = Inr props" for x
    using d by (simp add: get_dict_def nth_append)
  from lt have neq: "p \<noteq> length h" by simp
  show ?thesis
    using f unfolding reverse_preprocessing_def Let_def alloc_def
    by (auto simp: d intro!: no_key_error_ebind no_key_error_reverse_loops [OF rs d1 neq])
qed

subsection \<open>Overflow in resize\<close>

lemma absorbing_fields [simp]:
  "normalizer (absorbing ext) = normalizer ext"
  "reorient_nib_image (absorbing ext) = reorient_nib_image ext"
  "get_bbox_for_foreground (absorbing ext) = get_bbox_for_foreground ext"
  "crop_to_box (absorbing ext) = crop_to_box ext"
  "pad_to_size (absorbing ext) = pad_to_size ext"
  "connected_components (absorbing ext) = connected_components ext"
  by (simp_all add: absorbing_def)

lemma try_resize_success:
  assumes "try_resize ext ord msg a t out = Inr (r, out')"
  shows "r = kept_or_resized ext ord a t \<and> out' = out @ overflow_lines ext ord msg a t"
  using assms
  by (auto simp: try_resize_def kept_or_resized_def overflow_lines_def
           split: sum.splits error.splits)

lemma try_resize_absorbing:
  "(\<exists>e. try_resize ext ord msg a t out = Inl e \<and>
        try_resize (absorbing ext) ord msg a t out' = Inl e) \<or>
   (\<exists>r o1 o2. try_resize ext ord msg a t out = Inr (r, o1) \<and>
        try_resize (absorbing ext) ord msg a t out' = Inr (r, o2))"
  by (auto simp: try_resize_def absorbing_def split: sum.splits error.splits)

lemma resize_images_success:
  "resize_images ext t as out = Inr (rs, out') \<Longrightarrow>
     rs = map (\<lambda>a. kept_or_resized ext 3 a t) as \<and>
     out' = out @ concat (map (\<lambda>a. overflow_lines ext 3
              ''Unexpected values in either shape or image for resize'' a t) as)"
proof (induction as arbitrary: out rs out')
  case Nil
  then show ?case by simp
next
  case (Cons a as)
  from Cons.prems [simplified, THEN ebind_prod2_Inr]
  obtain r out1 where
    h: "try_resize ext 3 ''Unexpected values in either shape or image for resize'' a t out
          = Inr (r, out1)" and
    tl: "ebind (resize_images ext t as out1) (\<lambda>(rs, out2). Inr (r # rs, out2)) = Inr (rs, out')"
    by blast
  from tl [THEN ebind_prod2_Inr] obtain rs' where
    t2: "resize_images ext t as out1 = Inr (rs', out')" and rs: "rs = r # rs'"
    by auto
  from try_resize_success [OF h] Cons.IH [OF t2] rs show ?case
    by simp
qed

lemma resize_images_absorbing:
  "(\<exists>e. resize_images ext t as out = Inl e \<and> resize_images (absorbing ext) t as out' = Inl e) \<or>
   (\<exists>rs o1 o2. resize_images ext t as out = Inr (rs, o1) \<and>
        resize_images (absorbing ext) t as out' = Inr (rs, o2))"
proof (induction as arbitrary: out out')
  case Nil
  then show ?case by simp
next
  case (Cons a as)
  let ?m = "''Unexpected values in either shape or image for resize''"
  from try_resize_absorbing [of ext 3 ?m a t out out']
  show ?case
  proof (elim disjE exE conjE)
    fix e
    assume "try_resize ext 3 ?m a t out = Inl e"
       and "try_resize (absorbing ext) 3 ?m a t out' = Inl e"
    then show ?thesis by simp
  next
    fix r o1 o2
    assume h: "try_resize ext 3 ?m a t out = Inr (r, o1)"
       and h': "try_resize (absorbing ext) 3 ?m a t out' = Inr (r, o2)"
    from Cons.IH [of o1 o2] show ?thesis
      by (auto simp: h h')
  qed
qed

lemma map_err_list_all2:
  "map_err f xs = Inr ys \<Longrightarrow> list_all2 (\<lambda>x y. f x = Inr y) xs ys"
  by (induction xs arbitrary: ys) (auto simp: ebind_Inr_iff)


lemma computed_simps [simp]:
  "computed (Inl e) = Inl e"
  "computed (Inr (imgs, sg, out)) = Inr (imgs, sg)"
  by (simp_all add: computed_def)

lemma computed_ebind_cong:
  "(\<And>x. m = Inr x \<Longrightarrow> computed (f x) = computed (g x))
     \<Longrightarrow> computed (ebind m f) = computed (ebind m g)"
  by (cases m) simp_all

lemma normalize_and_transpose_absorbing [simp]:
  "normalize_and_transpose (absorbing ext) norm_op ints axes i a
     = normalize_and_transpose ext norm_op ints axes i a"
  by (simp add: normalize_and_transpose_def)

lemma resize_tail_absorbing:
  "computed
     (ebind (resize_images ext T im out1) (\<lambda>(images2, out2).
        (case seg of
           Some sg \<Rightarrow>
             ebind (np_transpose sg axes) (\<lambda>sg1.
             ebind (try_resize ext 0 msg sg1 T out2) (\<lambda>(sg2, out3).
             Inr (images2, Some sg2, out3)))
         | None \<Rightarrow> Inr (images2, None, out2))))
   = computed
     (ebind (resize_images (absorbing ext) T im out1) (\<lambda>(images2, out2).
        (case seg of
           Some sg \<Rightarrow>
             ebind (np_transpose sg axes) (\<lambda>sg1.
             ebind (try_resize (absorbing ext) 0 msg sg1 T out2) (\<lambda>(sg2, out3).
             Inr (images2, Some sg2, out3)))
         | None \<Rightarrow> Inr (images2, None, out2))))"
proof -
  from resize_images_absorbing [of ext T im out1 out1]
  show ?thesis
  proof (elim disjE exE conjE)
    fix e
    assume "resize_images ext T im out1 = Inl e"
       and "resize_images (absorbing ext) T im out1 = Inl e"
    then show ?thesis by simp
  next
    fix rs o1 o2
    assume r: "resize_images ext T im out1 = Inr (rs, o1)"
       and r': "resize_images (absorbing ext) T im out1 = Inr (rs, o2)"
    show ?thesis
    proof (cases seg)
      case None
      with r r' show ?thesis by simp
    next
      case (Some sg)
      show ?thesis
      proof (cases "np_transpose sg axes")
        case (Inl e)
        with r r' Some show ?thesis by simp
      next
        case (Inr sg1)
        from try_resize_absorbing [of ext 0 msg sg1 T o1 o2]
        show ?thesis
          by (auto simp: r r' Some Inr)
      qed
    qed
  qed
qed

lemma resample_absorbing:
  "computed (resample_and_normalize_case self ext images seg norm_op tr sp tgt out0)
   = computed
       (resample_and_normalize_case self (absorbing ext) images seg norm_op tr sp tgt out0)"
  unfolding resample_and_normalize_case_def Let_def
  by (auto split: option.splits
           intro!: computed_ebind_cong resize_tail_absorbing)


lemma computed_eqD:
  "computed x = computed y \<Longrightarrow>
     (\<exists>e. x = Inl e \<and> y = Inl e) \<or> (\<exists>a b o1 o2. x = Inr (a, b, o1) \<and> y = Inr (a, b, o2))"
  by (cases x; cases y) (auto simp: computed_def)

lemma reorient_for_inference_absorbing [simp]:
  "reorient_for_inference self (absorbing ext) images props out
     = reorient_for_inference self ext images props out"
  by (simp add: reorient_for_inference_def)

lemma load_for_inference_absorbing [simp]:
  "load_for_inference self (absorbing ext) fs paths = load_for_inference self ext fs paths"
  by (simp add: load_for_inference_def cong: if_cong)

lemma crop_for_inference_absorbing [simp]:
  "crop_for_inference self (absorbing ext) images1 props2
     = crop_for_inference self ext images1 props2"
  by (simp add: crop_for_inference_def Let_def cong: if_cong)

lemma pad_images_absorbing [simp]:
  "pad_images (absorbing ext) patch as p0 = pad_images ext patch as p0"
  by (induction as arbitrary: p0) simp_all

lemma resample_pad_stack_absorbing:
  "computed (resample_pad_stack self ext arrays1 props6 patch out1)
   = computed (resample_pad_stack self (absorbing ext) arrays1 props6 patch out1)"
proof (cases "original_spacing props6")
  case None
  then show ?thesis by (simp add: resample_pad_stack_def getkey_def)
next
  case (Some sp)
  from computed_eqD [OF resample_absorbing
         [of self ext arrays1 None "normalization_scheme (plans self)"
             "self_transpose_forward self" sp "self_target_spacing self" out1]]
  show ?thesis
  proof (elim disjE exE conjE)
    fix e
    assume "resample_and_normalize_case self ext arrays1 None (normalization_scheme (plans self))
              (self_transpose_forward self) sp (self_target_spacing self) out1 = Inl e"
       and "resample_and_normalize_case self (absorbing ext) arrays1 None
              (normalization_scheme (plans self))
              (self_transpose_forward self) sp (self_target_spacing self) out1 = Inl e"
    then show ?thesis
      by (simp add: resample_pad_stack_def Some getkey_def)
  next
    fix a b o1 o2
    assume "resample_and_normalize_case self ext arrays1 None (normalization_scheme (plans self))
              (self_transpose_forward self) sp (self_target_spacing self) out1 = Inr (a, b, o1)"
       and "resample_and_normalize_case self (absorbing ext) arrays1 None
              (normalization_scheme (plans self))
              (self_transpose_forward self) sp (self_target_spacing self) out1 = Inr (a, b, o2)"
    then show ?thesis
      by (auto simp: resample_pad_stack_def Some getkey_def computed_def ebind_def
               split: sum.splits prod.splits option.splits cong: if_cong)
  qed
qed

lemma inference_absorbing:
  "computed_inference (preprocess_case_for_inference self ext fs paths patch)
   = computed_inference (preprocess_case_for_inference self (absorbing ext) fs paths patch)"
proof -
  let ?s = "initialize_properties self"
  show ?thesis
  proof (cases "load_for_inference ?s ext fs paths")
    case (Inl e)
    then show ?thesis
      by (simp add: preprocess_case_for_inference_def Let_def)
  next
    case (Inr x)
    obtain images1 props2 out1 where x: "x = (images1, props2, out1)"
      by (cases x)
    obtain arrays1 props6 where c: "crop_for_inference ?s ext images1 props2 = (arrays1, props6)"
      by (cases "crop_for_inference ?s ext images1 props2")
    from computed_eqD [OF resample_pad_stack_absorbing [of ?s ext arrays1 props6 patch out1]]
    show ?thesis
      by (auto simp: preprocess_case_for_inference_def Let_def Inr x c computed_inference_def)
  qed
qed


lemma reorient_for_training_absorbing [simp]:
  "reorient_for_training self (absorbing ext) images seg
     = reorient_for_training self ext images seg"
  by (simp add: reorient_for_training_def cong: if_cong)

lemma crop_for_training_absorbing [simp]:
  "crop_for_training self (absorbing ext) arrays sg = crop_for_training self ext arrays sg"
  by (simp add: crop_for_training_def Let_def cong: if_cong)

lemma foreground_statistics_absorbing [simp]:
  "foreground_statistics (absorbing ext) stacked tgt = foreground_statistics ext stacked tgt"
  by (simp add: foreground_statistics_def)

lemma resample_and_describe_absorbing:
  "computed (resample_and_describe self ext paths segpath sp sz tgt oo fd arrays1 sg1 ce out1)
   = computed (resample_and_describe self (absorbing ext) paths segpath sp sz tgt oo fd
                 arrays1 sg1 ce out1)"
proof -
  from computed_eqD [OF resample_absorbing
         [of self ext arrays1 "Some sg1" "normalization_scheme (plans self)"
             "self_transpose_forward self" sp tgt out1]]
  show ?thesis
  proof (elim disjE exE conjE)
    fix e
    assume "resample_and_normalize_case self ext arrays1 (Some sg1)
              (normalization_scheme (plans self)) (self_transpose_forward self) sp tgt out1
            = Inl e"
       and "resample_and_normalize_case self (absorbing ext) arrays1 (Some sg1)
              (normalization_scheme (plans self)) (self_transpose_forward self) sp tgt out1
            = Inl e"
    then show ?thesis
      by (simp add: resample_and_describe_def)
  next
    fix a b o1 o2
    assume "resample_and_normalize_case self ext arrays1 (Some sg1)
              (normalization_scheme (plans self)) (self_transpose_forward self) sp tgt out1
            = Inr (a, b, o1)"
       and "resample_and_normalize_case self (absorbing ext) arrays1 (Some sg1)
              (normalization_scheme (plans self)) (self_transpose_forward self) sp tgt out1
            = Inr (a, b, o2)"
    then show ?thesis
      by (auto simp: resample_and_describe_def computed_def ebind_def
               split: sum.splits prod.splits)
  qed
qed

lemma transform_for_training_absorbing:
  "computed (transform_for_training self ext paths segpath images seg out1)
   = computed (transform_for_training self (absorbing ext) paths segpath images seg out1)"
  unfolding transform_for_training_def
  by (auto split: prod.splits intro!: computed_ebind_cong resample_and_describe_absorbing)

lemma train_subject_absorbing:
  "written_files (preprocess_train_subject self ext w f)
   = written_files (preprocess_train_subject self (absorbing ext) w f)"
proof (cases "isfile (files w) (arraypath self f) \<and> isfile (files w) (picklepath self f)")
  case True
  then show ?thesis by (simp add: preprocess_train_subject_def Let_def)
next
  case False
  show ?thesis
  proof (cases "load_for_training self (files w) (subject_id_of f)")
    case (Inl e)
    with False show ?thesis by (auto simp: preprocess_train_subject_def Let_def)
  next
    case (Inr x)
    obtain paths segpath images seg where x: "x = (paths, segpath, images, seg)"
      by (cases x)
    from computed_eqD [OF transform_for_training_absorbing
           [of self ext paths segpath images seg
               "stdout w @ [''Preprocessing: '' @ subject_id_of f]"]]
    show ?thesis
      using False
      by (auto simp: preprocess_train_subject_def Let_def Inr x written_files_def)
  qed
qed

lemma resample_success:
  assumes run: "resample_and_normalize_case self ext images seg norm_op tr sp tgt out0
                  = Inr (images2, seg2, out2)"
  shows "\<exists>ints images1 sp_t tgt_t.
           self_intensities self = Some ints \<and>
           map_err (\<lambda>i. normalize_and_transpose ext norm_op ints (elems tr) i (images ! i))
             [0..<length images] = Inr images1 \<and>
           np_take sp tr = Inr sp_t \<and> take_from tgt tr = Inr tgt_t \<and>
           images2 = map (\<lambda>a. kept_or_resized ext 3 a
                                 (target_shape sp_t tgt_t (shape (hd images1)))) images1 \<and>
           seg2 = map_option (\<lambda>sg. kept_or_resized ext 0 (projr (np_transpose sg (elems tr)))
                                      (target_shape sp_t tgt_t (shape (hd images1)))) seg \<and>
           out2 = out0 @ [''Normalized with: '' @ hd norm_op] @
                  concat (map (\<lambda>a. overflow_lines ext 3
                                      ''Unexpected values in either shape or image for resize'' a
                                      (target_shape sp_t tgt_t (shape (hd images1)))) images1) @
                  (case seg of
                     None \<Rightarrow> []
                   | Some sg \<Rightarrow>
                       overflow_lines ext 0
                         ''Unexpected values in either shape or seg for resize''
                         (projr (np_transpose sg (elems tr)))
                         (target_shape sp_t tgt_t (shape (hd images1))))"
proof -
  from run obtain ints where ints: "self_intensities self = Some ints"
    by (auto simp: resample_and_normalize_case_def split: option.splits)
  let ?f = "\<lambda>i. normalize_and_transpose ext norm_op ints (elems tr) i (images ! i)"
  from run ints obtain images1 where
    m: "map_err ?f [0..<length images] = Inr images1"
    by (cases "map_err ?f [0..<length images]")
       (auto simp: resample_and_normalize_case_def ebind_Inr_iff)
  from run ints m obtain sp_t where sp: "np_take sp tr = Inr sp_t"
    by (cases "np_take sp tr")
       (auto simp: resample_and_normalize_case_def ebind_Inr_iff Let_def split: if_splits)
  from run ints m sp obtain tgt_t where tg: "take_from tgt tr = Inr tgt_t"
    by (cases "take_from tgt tr")
       (auto simp: resample_and_normalize_case_def ebind_Inr_iff Let_def split: if_splits)
  let ?t = "target_shape sp_t tgt_t (shape (hd images1))"
  let ?out1 = "out0 @ [''Normalized with: '' @ hd norm_op]"
  from run ints m sp tg have
    tail: "ebind (resize_images ext ?t images1 ?out1) (\<lambda>(images2, out2).
             (case seg of
                Some sg \<Rightarrow>
                  ebind (np_transpose sg (elems tr)) (\<lambda>sg1.
                  ebind (try_resize ext 0 ''Unexpected values in either shape or seg for resize''
                           sg1 ?t out2) (\<lambda>(sg2, out3).
                  Inr (images2, Some sg2, out3)))
              | None \<Rightarrow> Inr (images2, None, out2))) = Inr (images2, seg2, out2)"
    by (auto simp: resample_and_normalize_case_def ebind_Inr_iff Let_def split: if_splits)
  from tail [THEN ebind_prod2_Inr] obtain rs o2 where
    r: "resize_images ext ?t images1 ?out1 = Inr (rs, o2)" and
    k: "(case seg of
           Some sg \<Rightarrow>
             ebind (np_transpose sg (elems tr)) (\<lambda>sg1.
             ebind (try_resize ext 0 ''Unexpected values in either shape or seg for resize''
                      sg1 ?t o2) (\<lambda>(sg2, out3).
             Inr (rs, Some sg2, out3)))
         | None \<Rightarrow> Inr (rs, None, o2)) = Inr (images2, seg2, out2)"
    by blast
  note rr = resize_images_success [OF r]
  have "images2 = rs \<and>
        seg2 = map_option (\<lambda>sg. kept_or_resized ext 0 (projr (np_transpose sg (elems tr))) ?t) seg \<and>
        out2 = o2 @ (case seg of
                       None \<Rightarrow> []
                     | Some sg \<Rightarrow>
                         overflow_lines ext 0
                           ''Unexpected values in either shape or seg for resize''
                           (projr (np_transpose sg (elems tr))) ?t)"
  proof (cases seg)
    case None
    with k show ?thesis by simp
  next
    case (Some sg)
    with k obtain sg1 where
      t1: "np_transpose sg (elems tr) = Inr sg1" and
      t2: "ebind (try_resize ext 0 ''Unexpected values in either shape or seg for resize''
                    sg1 ?t o2) (\<lambda>(sg2, out3). Inr (rs, Some sg2, out3))
           = Inr (images2, seg2, out2)"
      by (auto simp: ebind_Inr_iff)
    from t2 [THEN ebind_prod2_Inr] obtain s2 o3 where
      t3: "try_resize ext 0 ''Unexpected values in either shape or seg for resize'' sg1 ?t o2
           = Inr (s2, o3)" and
      t4: "images2 = rs" "seg2 = Some s2" "out2 = o3"
      by auto
    from try_resize_success [OF t3] t4 Some t1 show ?thesis
      by simp
  qed
  with rr ints m sp tg show ?thesis
    by simp
qed


lemma not_isl_triple:
  "\<not> isl x \<Longrightarrow> x = Inr (fst (projr x), fst (snd (projr x)), snd (snd (projr x)))"
  by (cases x) auto

text \<open>
  C9, amended. The \<^verbatim>\<open>try ... except OverflowError\<close> around \<^verbatim>\<open>resize\<close> stands in
  \<^verbatim>\<open>_resample_and_normalize_case\<close>, which training and inference share. A call of
  \<^verbatim>\<open>resize\<close> that raises OverflowError prints the message and leaves the array as it
  is. When \<^verbatim>\<open>_resample_and_normalize_case\<close> returns, every image is the resized one or,
  where \<^verbatim>\<open>resize\<close> raised OverflowError, the normalized and transposed one, the label
  likewise, and the console holds one message for each overflow. The method, single
  case inference and the training of a case compute what they compute with a
  \<^verbatim>\<open>resize\<close> that returns its argument instead of raising OverflowError (the same
  arrays, record and files, or the same exception): the overflow is fatal in neither
  mode.
\<close>

theorem resize_overflow_is_caught:
  "(resize ext ord a t = Inl OverflowError
      \<longrightarrow> try_resize ext ord msg a t out = Inr (a, out @ [msg])) \<and>
   (resample_and_normalize_case self ext images seg norm_op tr sp tgt out0
      = Inr (images2, seg2, out2)
      \<longrightarrow> (\<exists>ints images1 sp_t tgt_t.
             self_intensities self = Some ints \<and>
             map_err (\<lambda>i. normalize_and_transpose ext norm_op ints (elems tr) i (images ! i))
               [0..<length images] = Inr images1 \<and>
             np_take sp tr = Inr sp_t \<and> take_from tgt tr = Inr tgt_t \<and>
             images2 = map (\<lambda>a. kept_or_resized ext 3 a
                                   (target_shape sp_t tgt_t (shape (hd images1)))) images1 \<and>
             seg2 = map_option
                      (\<lambda>sg. kept_or_resized ext 0 (projr (np_transpose sg (elems tr)))
                               (target_shape sp_t tgt_t (shape (hd images1)))) seg \<and>
             out2 = out0 @ [''Normalized with: '' @ hd norm_op] @
                    concat (map (\<lambda>a. overflow_lines ext 3
                                   ''Unexpected values in either shape or image for resize'' a
                                   (target_shape sp_t tgt_t (shape (hd images1)))) images1) @
                    (case seg of
                       None \<Rightarrow> []
                     | Some sg \<Rightarrow>
                         overflow_lines ext 0
                           ''Unexpected values in either shape or seg for resize''
                           (projr (np_transpose sg (elems tr)))
                           (target_shape sp_t tgt_t (shape (hd images1)))))) \<and>
   computed (resample_and_normalize_case self ext images seg norm_op tr sp tgt out0)
     = computed (resample_and_normalize_case self (absorbing ext) images seg norm_op tr sp tgt
                   out0) \<and>
   computed_inference (preprocess_case_for_inference self ext fs paths patch)
     = computed_inference (preprocess_case_for_inference self (absorbing ext) fs paths patch) \<and>
   written_files (preprocess_train_subject self ext w f)
     = written_files (preprocess_train_subject self (absorbing ext) w f)"
proof (intro conjI impI)
  assume "resize ext ord a t = Inl OverflowError"
  then show "try_resize ext ord msg a t out = Inr (a, out @ [msg])"
    by (simp add: try_resize_def)
next
  assume "resample_and_normalize_case self ext images seg norm_op tr sp tgt out0
            = Inr (images2, seg2, out2)"
  then show "\<exists>ints images1 sp_t tgt_t.
             self_intensities self = Some ints \<and>
             map_err (\<lambda>i. normalize_and_transpose ext norm_op ints (elems tr) i (images ! i))
               [0..<length images] = Inr images1 \<and>
             np_take sp tr = Inr sp_t \<and> take_from tgt tr = Inr tgt_t \<and>
             images2 = map (\<lambda>a. kept_or_resized ext 3 a
                                   (target_shape sp_t tgt_t (shape (hd images1)))) images1 \<and>
             seg2 = map_option
                      (\<lambda>sg. kept_or_resized ext 0 (projr (np_transpose sg (elems tr)))
                               (target_shape sp_t tgt_t (shape (hd images1)))) seg \<and>
             out2 = out0 @ [''Normalized with: '' @ hd norm_op] @
                    concat (map (\<lambda>a. overflow_lines ext 3
                                   ''Unexpected values in either shape or image for resize'' a
                                   (target_shape sp_t tgt_t (shape (hd images1)))) images1) @
                    (case seg of
                       None \<Rightarrow> []
                     | Some sg \<Rightarrow>
                         overflow_lines ext 0
                           ''Unexpected values in either shape or seg for resize''
                           (projr (np_transpose sg (elems tr)))
                           (target_shape sp_t tgt_t (shape (hd images1))))"
    by (rule resample_success)
qed (rule resample_absorbing inference_absorbing train_subject_absorbing)+

text \<open>
  The claim as stated fails: with a \<^verbatim>\<open>resize\<close> that raises OverflowError on every
  call, inference of the concrete case returns a tensor (of the transposed, unresized
  shape) and has printed the message of the handler.
\<close>

theorem overflow_at_inference_is_not_fatal:
  "isl (resize overflow_externals 3 (digits [3, 4]) [3, 4]) \<and>
   projl (resize overflow_externals 3 (digits [3, 4]) [3, 4]) = OverflowError \<and>
   \<not> isl (preprocess_case_for_inference ex_self overflow_externals (raw_files ex_label)
            [''/raw/Task001/imagesTr/case_1_000.nii.gz''] [3, 4]) \<and>
   shape (fst (snd (projr (preprocess_case_for_inference ex_self overflow_externals
            (raw_files ex_label) [''/raw/Task001/imagesTr/case_1_000.nii.gz''] [3, 4]))))
     = [1, 1, 3, 4] \<and>
   snd (snd (snd (projr (preprocess_case_for_inference ex_self overflow_externals
            (raw_files ex_label) [''/raw/Task001/imagesTr/case_1_000.nii.gz''] [3, 4]))))
     = [''Normalized with: no_norm'',
        ''Unexpected values in either shape or image for resize'']"
  by code_simp

text \<open>
  The method on one \<open>4 \<times> 3\<close> image and its label, with a \<^verbatim>\<open>resize\<close> that always
  raises OverflowError: it returns, both arrays are the transposed ones, and both
  messages are on the console. Inference and training of \<open>case_1\<close> return as well.
\<close>

theorem resize_overflow_is_caught_witness:
  "resize overflow_externals 3 (digits [3, 4]) [3, 4] = Inl OverflowError \<and>
   try_resize overflow_externals 3 ''Unexpected values in either shape or image for resize''
     (digits [3, 4]) [3, 4] [] =
     Inr (digits [3, 4], [''Unexpected values in either shape or image for resize'']) \<and>
   \<not> isl (resample_and_normalize_case ex_self overflow_externals [digits [4, 3]]
            (Some (ones [4, 3])) [''no_norm''] (NpArray [1, 0]) [1, 1] (NpArray [1, 1]) []) \<and>
   fst (projr (resample_and_normalize_case ex_self overflow_externals [digits [4, 3]]
            (Some (ones [4, 3])) [''no_norm''] (NpArray [1, 0]) [1, 1] (NpArray [1, 1]) []))
     = map (\<lambda>a. kept_or_resized overflow_externals 3 a [3, 4])
         (projr (map_err (\<lambda>i. normalize_and_transpose overflow_externals [''no_norm''] [[]]
                                [1, 0] i ([digits [4, 3]] ! i)) [0..<1])) \<and>
   snd (snd (projr (resample_and_normalize_case ex_self overflow_externals [digits [4, 3]]
            (Some (ones [4, 3])) [''no_norm''] (NpArray [1, 0]) [1, 1] (NpArray [1, 1]) [])))
     = [''Normalized with: no_norm'',
        ''Unexpected values in either shape or image for resize'',
        ''Unexpected values in either shape or seg for resize''] \<and>
   \<not> isl (preprocess_case_for_inference ex_self overflow_externals (raw_files ex_label)
            [''/raw/Task001/imagesTr/case_1_000.nii.gz''] [3, 4]) \<and>
   computed_inference (preprocess_case_for_inference ex_self overflow_externals
      (raw_files ex_label) [''/raw/Task001/imagesTr/case_1_000.nii.gz''] [3, 4])
     = computed_inference (preprocess_case_for_inference ex_self (absorbing overflow_externals)
         (raw_files ex_label) [''/raw/Task001/imagesTr/case_1_000.nii.gz''] [3, 4]) \<and>
   \<not> isl (preprocess_train_subject ex_self overflow_externals (raw_world ex_label)
            ''case_1.nii.gz'') \<and>
   written_files (preprocess_train_subject ex_self overflow_externals (raw_world ex_label)
      ''case_1.nii.gz'')
     = written_files (preprocess_train_subject ex_self (absorbing overflow_externals)
         (raw_world ex_label) ''case_1.nii.gz'')"
proof -
  let ?X = "resample_and_normalize_case ex_self overflow_externals [digits [4, 3]]
              (Some (ones [4, 3])) [''no_norm''] (NpArray [1, 0]) [1, 1] (NpArray [1, 1]) []"
  have ovf: "resize overflow_externals 3 (digits [3, 4]) [3, 4] = Inl OverflowError"
    by (simp add: overflow_externals_def)
  have nx: "\<not> isl ?X"
    by code_simp
  have ni: "\<not> isl (preprocess_case_for_inference ex_self overflow_externals
                     (raw_files ex_label) [''/raw/Task001/imagesTr/case_1_000.nii.gz''] [3, 4])"
    by code_simp
  have nt: "\<not> isl (preprocess_train_subject ex_self overflow_externals (raw_world ex_label)
                     ''case_1.nii.gz'')"
    by code_simp
  have ints: "self_intensities ex_self = Some [[]]"
    by (simp add: ex_self_def initialize_properties_def init_def ex_plans_def)
  have sp: "np_take [1, 1 :: rat] (NpArray [1, 0]) = Inr [1, 1]"
           "take_from (NpArray [1, 1 :: rat]) (NpArray [1, 0]) = Inr [1, 1]"
    by (simp_all add: np_take_def take_from_def elems_def)
  have sh: "shape (hd (projr (map_err (\<lambda>i. normalize_and_transpose overflow_externals
                [''no_norm''] [[]] [1, 0] i ([digits [4, 3]] ! i)) [0..<1]))) = [3, 4]"
    by code_simp
  have ts: "target_shape [1, 1] [1, 1] [3, 4] = [3, 4]"
    by code_simp
  have ol: "overflow_lines overflow_externals ord msg a t = [msg]" for ord msg a t
    by (simp add: overflow_lines_def overflow_externals_def)
  note inst = resize_overflow_is_caught
         [of overflow_externals 3 "digits [3, 4]" "[3, 4]"
            "''Unexpected values in either shape or image for resize''" "[]"
            ex_self "[digits [4, 3]]" "Some (ones [4, 3])" "[''no_norm'']" "NpArray [1, 0]"
            "[1, 1]" "NpArray [1, 1]" "[]"
            "fst (projr ?X)" "fst (snd (projr ?X))" "snd (snd (projr ?X))"
            "raw_files ex_label" "[''/raw/Task001/imagesTr/case_1_000.nii.gz'']" "[3, 4]"
            "raw_world ex_label" "''case_1.nii.gz''"]
  from inst ovf have
    t1: "try_resize overflow_externals 3
           ''Unexpected values in either shape or image for resize'' (digits [3, 4]) [3, 4] []
         = Inr (digits [3, 4], [''Unexpected values in either shape or image for resize''])"
    by simp
  from inst not_isl_triple [OF nx] have
    "\<exists>ints images1 sp_t tgt_t.
       self_intensities ex_self = Some ints \<and>
       map_err (\<lambda>i. normalize_and_transpose overflow_externals [''no_norm''] ints
                      (elems (NpArray [1, 0])) i ([digits [4, 3]] ! i))
         [0..<length [digits [4, 3]]] = Inr images1 \<and>
       np_take [1, 1] (NpArray [1, 0]) = Inr sp_t \<and>
       take_from (NpArray [1, 1]) (NpArray [1, 0]) = Inr tgt_t \<and>
       fst (projr ?X) = map (\<lambda>a. kept_or_resized overflow_externals 3 a
                                 (target_shape sp_t tgt_t (shape (hd images1)))) images1 \<and>
       snd (snd (projr ?X)) = [] @ [''Normalized with: '' @ hd [''no_norm'']] @
              concat (map (\<lambda>a. overflow_lines overflow_externals 3
                             ''Unexpected values in either shape or image for resize'' a
                             (target_shape sp_t tgt_t (shape (hd images1)))) images1) @
              (case Some (ones [4, 3]) of
                 None \<Rightarrow> []
               | Some sg \<Rightarrow>
                   overflow_lines overflow_externals 0
                     ''Unexpected values in either shape or seg for resize''
                     (projr (np_transpose sg (elems (NpArray [1, 0]))))
                     (target_shape sp_t tgt_t (shape (hd images1))))"
    by blast
  then obtain ints0 images1 sp_t tgt_t where
    e1: "self_intensities ex_self = Some ints0" and
    e2: "map_err (\<lambda>i. normalize_and_transpose overflow_externals [''no_norm''] ints0
                      (elems (NpArray [1, 0])) i ([digits [4, 3]] ! i))
           [0..<length [digits [4, 3]]] = Inr images1" and
    e3: "np_take [1, 1] (NpArray [1, 0]) = Inr sp_t" and
    e4: "take_from (NpArray [1, 1]) (NpArray [1, 0]) = Inr tgt_t" and
    e5: "fst (projr ?X) = map (\<lambda>a. kept_or_resized overflow_externals 3 a
                                 (target_shape sp_t tgt_t (shape (hd images1)))) images1" and
    e6: "snd (snd (projr ?X)) = [] @ [''Normalized with: '' @ hd [''no_norm'']] @
              concat (map (\<lambda>a. overflow_lines overflow_externals 3
                             ''Unexpected values in either shape or image for resize'' a
                             (target_shape sp_t tgt_t (shape (hd images1)))) images1) @
              (case Some (ones [4, 3]) of
                 None \<Rightarrow> []
               | Some sg \<Rightarrow>
                   overflow_lines overflow_externals 0
                     ''Unexpected values in either shape or seg for resize''
                     (projr (np_transpose sg (elems (NpArray [1, 0]))))
                     (target_shape sp_t tgt_t (shape (hd images1))))"
    by blast
  from e1 ints have i0: "ints0 = [[]]"
    by simp
  from e3 sp(1) have s0: "sp_t = [1, 1]"
    by simp
  from e4 sp(2) have g0: "tgt_t = [1, 1]"
    by simp
  have el: "elems (NpArray [1, 0 :: nat]) = [1, 0]" "length [digits [4, 3]] = 1"
    by (simp_all add: elems_def)
  from e2 have
    m: "map_err (\<lambda>i. normalize_and_transpose overflow_externals [''no_norm''] [[]]
                      [1, 0] i ([digits [4, 3]] ! i)) [0..<1] = Inr images1"
    unfolding i0 el .
  from e5 have
    i2: "fst (projr ?X) = map (\<lambda>a. kept_or_resized overflow_externals 3 a
                                 (target_shape [1, 1] [1, 1] (shape (hd images1)))) images1"
    unfolding s0 g0 .
  from e6 have
    o2: "snd (snd (projr ?X)) = [''Normalized with: no_norm''] @
              concat (map (\<lambda>a. [''Unexpected values in either shape or image for resize''])
                        images1) @
              [''Unexpected values in either shape or seg for resize'']"
    by (simp add: ol)
  from map_err_length [OF m] have l1: "length images1 = 1"
    by simp
  from sh m have s1: "shape (hd images1) = [3, 4]"
    by simp
  from l1 obtain x where x: "images1 = [x]"
    by (cases images1) auto
  have r4: "fst (projr ?X)
              = map (\<lambda>a. kept_or_resized overflow_externals 3 a [3, 4])
                  (projr (map_err (\<lambda>i. normalize_and_transpose overflow_externals [''no_norm'']
                                          [[]] [1, 0] i ([digits [4, 3]] ! i)) [0..<1]))"
    by (simp only: m i2 s1 ts sum.sel)
  from o2 x have
    r5: "snd (snd (projr ?X))
           = [''Normalized with: no_norm'',
              ''Unexpected values in either shape or image for resize'',
              ''Unexpected values in either shape or seg for resize'']"
    by simp
  from inst have
    c3: "computed_inference (preprocess_case_for_inference ex_self overflow_externals
           (raw_files ex_label) [''/raw/Task001/imagesTr/case_1_000.nii.gz''] [3, 4])
         = computed_inference (preprocess_case_for_inference ex_self
             (absorbing overflow_externals) (raw_files ex_label)
             [''/raw/Task001/imagesTr/case_1_000.nii.gz''] [3, 4])" and
    c4: "written_files (preprocess_train_subject ex_self overflow_externals
           (raw_world ex_label) ''case_1.nii.gz'')
         = written_files (preprocess_train_subject ex_self (absorbing overflow_externals)
             (raw_world ex_label) ''case_1.nii.gz'')"
    by blast+
  show ?thesis
    apply (intro conjI)
            apply (rule ovf)
           apply (rule t1)
          apply (rule nx)
         apply (rule r4)
        apply (rule r5)
       apply (rule ni)
      apply (rule c3)
     apply (rule nt)
    apply (rule c4)
    done
qed

text \<open>
  Going on is not succeeding. With target spacing 2 and a \<^verbatim>\<open>resize\<close> that raises
  OverflowError for the image only, the image keeps the shape \<open>3 \<times> 4\<close> while the
  label is resized, and training ends with the ValueError of \<^verbatim>\<open>np.vstack\<close>, exactly
  as it does when \<^verbatim>\<open>resize\<close> returns the image unchanged.
\<close>

theorem overflow_of_images_only_ends_at_stack:
  "isl (preprocess_train_subject coarse_self image_overflow_externals (raw_world ex_label)
          ''case_1.nii.gz'') \<and>
   projl (preprocess_train_subject coarse_self image_overflow_externals (raw_world ex_label)
          ''case_1.nii.gz'') = ValueError \<and>
   projl (preprocess_train_subject coarse_self (absorbing image_overflow_externals)
          (raw_world ex_label) ''case_1.nii.gz'') = ValueError"
  by code_simp
end
